theory Spec2Isabelle
  imports Complex_Main
begin

section \<open>Conventions of the embedding\<close>

text \<open>
  The development embeds the evaluation engine (\<^verbatim>\<open>src/evaluation/engine.py\<close>), the
  evaluator agents (\<^verbatim>\<open>src/agents/evaluator_agents.py\<close>), the provider factory and the
  provider base class (\<^verbatim>\<open>src/llm_providers\<close>) and the session configuration of
  \<^verbatim>\<open>src/database/database.py\<close>.

  \<^item> A Python \<^verbatim>\<open>float\<close> is modelled by the real number it stands for; rounding of the
    binary representation is not modelled. A Python \<^verbatim>\<open>int\<close> is an \<open>int\<close>.
  \<^item> A Python \<^verbatim>\<open>str\<close> is a \<open>string\<close>; one \<open>char\<close> is one code point below 256.
  \<^item> An exception is a value of \<open>py_error\<close> carrying the text of \<^verbatim>\<open>str(e)\<close>; a function
    that may raise returns \<open>py_error + 'a\<close>.
  \<^item> \<^verbatim>\<open>Optional[str]\<close> is \<open>string option\<close>; the truth test \<^verbatim>\<open>not x\<close> on such a value
    holds for \<^verbatim>\<open>None\<close> and for the empty string.
\<close>

datatype py_error =
    ValueError string
  | ZeroDivisionError string
  | AttributeError string

fun error_str :: "py_error \<Rightarrow> string" where
  "error_str (ValueError msg) = msg"
| "error_str (ZeroDivisionError msg) = msg"
| "error_str (AttributeError msg) = msg"

definition quoted :: "string \<Rightarrow> string" where
  "quoted s = [CHR 0x27] @ s @ [CHR 0x27]"

definition falsy :: "string option \<Rightarrow> bool" where
  "falsy x = (case x of None \<Rightarrow> True | Some s \<Rightarrow> s = [])"


section \<open>Strings\<close>

text \<open>\<^verbatim>\<open>str.lower\<close> on code points below 256: the ASCII capitals and the Latin-1 capitals
  (192 to 222 without the multiplication sign 215) move up by 32.\<close>

definition lower_char :: "char \<Rightarrow> char" where
  "lower_char c =
     (let n = (of_char c :: nat)
      in if (65 \<le> n \<and> n \<le> 90) \<or> (192 \<le> n \<and> n \<le> 222 \<and> n \<noteq> 215)
         then char_of (n + 32) else c)"

definition lower :: "string \<Rightarrow> string" where
  "lower s = map lower_char s"

text \<open>The white space of \<^verbatim>\<open>\s\<close> and of \<^verbatim>\<open>str.split()\<close> below 256: tab to carriage return,
  the separators 28 to 31, the blank, NEL (133) and the no-break space (160).\<close>

definition is_space :: "char \<Rightarrow> bool" where
  "is_space c =
     (let n = (of_char c :: nat)
      in (9 \<le> n \<and> n \<le> 13) \<or> (28 \<le> n \<and> n \<le> 32) \<or> n = 133 \<or> n = 160)"

definition is_digit :: "char \<Rightarrow> bool" where
  "is_digit c = (let n = (of_char c :: nat) in 48 \<le> n \<and> n \<le> 57)"

text \<open>The character classes \<^verbatim>\<open>[0-9.]\<close> and \<^verbatim>\<open>[:\s]\<close> of the patterns.\<close>

definition is_num :: "char \<Rightarrow> bool" where
  "is_num c = (is_digit c \<or> c = CHR ''.'')"

definition is_sep :: "char \<Rightarrow> bool" where
  "is_sep c = (c = CHR '':'' \<or> is_space c)"

fun strip_prefix :: "string \<Rightarrow> string \<Rightarrow> string option" where
  "strip_prefix [] s = Some s"
| "strip_prefix (p # ps) [] = None"
| "strip_prefix (p # ps) (c # cs) = (if p = c then strip_prefix ps cs else None)"

text \<open>\<^verbatim>\<open>sub in s\<close>.\<close>

fun contains :: "string \<Rightarrow> string \<Rightarrow> bool" where
  "contains sub [] = (sub = [])"
| "contains sub (c # cs) = (strip_prefix sub (c # cs) \<noteq> None \<or> contains sub cs)"

text \<open>\<^verbatim>\<open>s.split()\<close>: the maximal runs of characters that are not white space.\<close>

fun split_acc :: "string \<Rightarrow> string \<Rightarrow> string list" where
  "split_acc cur [] = (if cur = [] then [] else [cur])"
| "split_acc cur (c # cs) =
     (if is_space c
      then (if cur = [] then split_acc [] cs else cur # split_acc [] cs)
      else split_acc (cur @ [c]) cs)"

definition py_split :: "string \<Rightarrow> string list" where
  "py_split s = split_acc [] s"

text \<open>\<^verbatim>\<open>sum(1 for w in words if w in text)\<close>.\<close>

definition count_in :: "string list \<Rightarrow> string \<Rightarrow> nat" where
  "count_in ws text = length (filter (\<lambda>w. contains w text) ws)"

text \<open>\<^verbatim>\<open>str(n)\<close> for a natural number, and the format \<^verbatim>\<open>:.1f\<close>: the value is rounded to
  one decimal, a tie going to the even digit.\<close>

fun nat_digits :: "nat \<Rightarrow> string" where
  "nat_digits n =
     (if n < 10 then [char_of (48 + n)]
      else nat_digits (n div 10) @ [char_of (48 + n mod 10)])"

declare nat_digits.simps [simp del]

definition round_half_even :: "real \<Rightarrow> int" where
  "round_half_even y =
     (let f = \<lfloor>y\<rfloor>; d = y - of_int f
      in if d < 1 / 2 then f
         else if d > 1 / 2 then f + 1
         else if even f then f else f + 1)"

definition format_1f :: "real \<Rightarrow> string" where
  "format_1f x =
     (let t = nat (round_half_even (\<bar>x\<bar> * 10))
      in (if x < 0 then ''-'' else '''') @ nat_digits (t div 10) @ ''.'' @ nat_digits (t mod 10))"


section \<open>Score extraction\<close>

text \<open>
  The four patterns of \<^verbatim>\<open>_extract_score\<close> are of two shapes:
  \<^verbatim>\<open>kw[:\s]+([0-9.]+)\<close> for the keywords \<^verbatim>\<open>score\<close> and \<^verbatim>\<open>rating\<close>, and
  \<^verbatim>\<open>([0-9.]+)\s*/\s*den\<close> for the denominators \<^verbatim>\<open>10\<close> and \<^verbatim>\<open>100\<close>.
  In both, each repetition is over a class that excludes the character the next element
  needs, so a match at a position exists exactly when the one taking every repetition
  as far as it goes exists, and that is the match the greedy engine reports.
  \<open>match_at\<close> is that match at the head of the string; \<open>re_search\<close> is
  \<^verbatim>\<open>re.search\<close>, which tries the positions from left to right; both return group 1.
\<close>

datatype pattern = Keyword string | Ratio string

fun match_at :: "pattern \<Rightarrow> string \<Rightarrow> string option" where
  "match_at (Keyword kw) s =
     (case strip_prefix kw s of
        None \<Rightarrow> None
      | Some r \<Rightarrow>
          (let g = takeWhile is_num (dropWhile is_sep r)
           in if takeWhile is_sep r \<noteq> [] \<and> g \<noteq> [] then Some g else None))"
| "match_at (Ratio den) s =
     (let g = takeWhile is_num s
      in case dropWhile is_space (dropWhile is_num s) of
           [] \<Rightarrow> None
         | c # r \<Rightarrow>
             if g \<noteq> [] \<and> c = CHR ''/'' \<and> strip_prefix den (dropWhile is_space r) \<noteq> None
             then Some g else None)"

fun re_search :: "pattern \<Rightarrow> string \<Rightarrow> string option" where
  "re_search p [] = match_at p []"
| "re_search p (c # cs) =
     (case match_at p (c # cs) of Some g \<Rightarrow> Some g | None \<Rightarrow> re_search p cs)"

definition patterns :: "pattern list" where
  "patterns = [Keyword ''score'', Keyword ''rating'', Ratio ''10'', Ratio ''100'']"

text \<open>\<^verbatim>\<open>float(g)\<close> for a group \<open>g\<close> over \<^verbatim>\<open>[0-9.]\<close>: digits with at most one point and at
  least one digit; anything else raises \<^verbatim>\<open>ValueError\<close> (\<open>None\<close> here).\<close>

definition digits_val :: "string \<Rightarrow> nat" where
  "digits_val ds = foldl (\<lambda>acc c. 10 * acc + (of_char c - 48)) 0 ds"

definition py_float :: "string \<Rightarrow> real option" where
  "py_float g =
     (let ip = takeWhile is_digit g
      in case dropWhile is_digit g of
           [] \<Rightarrow> if ip = [] then None else Some (real (digits_val ip))
         | c # fp \<Rightarrow>
             if c = CHR ''.'' \<and> list_all is_digit fp \<and> (ip \<noteq> [] \<or> fp \<noteq> [])
             then Some (real (digits_val ip) + real (digits_val fp) / 10 ^ length fp)
             else None)"

text \<open>The normalisation of a matched score, in the order of the source's tests.\<close>

definition normalize_score :: "string \<Rightarrow> real \<Rightarrow> real" where
  "normalize_score evaluation_text score =
     (if contains ''/10'' (lower evaluation_text) then score / 10
      else if contains ''/100'' (lower evaluation_text) then score / 100
      else if score \<le> 1 then score
      else if score \<le> 10 then score / 10
      else score / 100)"

definition positive_keywords :: "string list" where
  "positive_keywords = [''good'', ''excellent'', ''accurate'', ''correct'', ''comprehensive'']"

definition negative_keywords :: "string list" where
  "negative_keywords = [''poor'', ''incorrect'', ''inaccurate'', ''incomplete'', ''wrong'']"

definition keyword_score :: "string \<Rightarrow> real" where
  "keyword_score evaluation_text =
     (let text_lower = lower evaluation_text;
          positive_count = count_in positive_keywords text_lower;
          negative_count = count_in negative_keywords text_lower
      in if positive_count > negative_count then 75 / 100
         else if negative_count > positive_count then 35 / 100
         else 55 / 100)"

text \<open>The loop over the patterns: the first pattern that matches decides, and every
  branch under it returns; the keyword scoring runs when no pattern matched.\<close>

fun scan_patterns :: "pattern list \<Rightarrow> string \<Rightarrow> py_error + real" where
  "scan_patterns [] evaluation_text = Inr (keyword_score evaluation_text)"
| "scan_patterns (p # ps) evaluation_text =
     (case re_search p (lower evaluation_text) of
        Some g \<Rightarrow>
          (case py_float g of
             None \<Rightarrow>
               Inl (ValueError (''could not convert string to float: '' @ quoted g))
           | Some score \<Rightarrow> Inr (normalize_score evaluation_text score))
      | None \<Rightarrow> scan_patterns ps evaluation_text)"

definition extract_score :: "string \<Rightarrow> py_error + real" where
  "extract_score evaluation_text = scan_patterns patterns evaluation_text"

section \<open>Evaluator agents\<close>

text \<open>The dictionary the engine hands to an evaluator; the keys are fixed by the engine.\<close>

record test_case_dict =
  td_input_text :: string
  td_expected_output :: "string option"
  td_category :: string
  td_evaluation_criteria :: "string option"

text \<open>The dictionary an evaluator returns.\<close>

record evaluation =
  ev_score :: real
  ev_feedback :: string
  ev_category :: string
  ev_evaluator :: string

datatype evaluator = SummarizationEvaluator | QAEvaluator | ReasoningEvaluator

definition score_line :: "real \<Rightarrow> string \<Rightarrow> string" where
  "score_line score feedback = ''Score: '' @ format_1f score @ ''\<newline>Feedback: '' @ feedback"

subsection \<open>Summarization\<close>

definition summarization_mock_evaluation :: "test_case_dict \<Rightarrow> string \<Rightarrow> py_error + string" where
  "summarization_mock_evaluation test_case model_response =
     (let original_length = length (td_input_text test_case);
          summary_length = length model_response
      in if original_length = 0 then Inl (ZeroDivisionError ''division by zero'')
         else
           let compression_ratio = real summary_length / real original_length;
               (score, feedback) =
                  (if compression_ratio < 2 / 10 then
                     (85 / 10, ''Excellent compression ratio. The summary effectively condenses the original text while maintaining key information.'')
                   else if compression_ratio < 4 / 10 then
                     (75 / 10, ''Good summarization with appropriate length reduction. Most key points are captured.'')
                   else
                     (6, ''Summary could be more concise. Consider reducing length while preserving essential information.''));
               original_words = set (py_split (lower (td_input_text test_case)));
               summary_words = set (py_split (lower model_response))
           in if card original_words = 0 then Inl (ZeroDivisionError ''division by zero'')
              else
                let overlap = real (card (original_words \<inter> summary_words)) / real (card original_words);
                    (score, feedback) =
                       (if overlap > 3 / 10
                        then (score + 1, feedback @ '' Good preservation of key terminology.'')
                        else (score, feedback))
                in Inr (score_line (min score 10) feedback))"

subsection \<open>Question answering\<close>

text \<open>\<^verbatim>\<open>test_case.get('expected_output', '')\<close>: the engine always supplies the key, so the
  default is never taken and a missing expected output arrives as \<^verbatim>\<open>None\<close>, on which
  \<^verbatim>\<open>.lower()\<close> raises.\<close>

definition qa_mock_evaluation :: "test_case_dict \<Rightarrow> string \<Rightarrow> py_error + string" where
  "qa_mock_evaluation test_case model_response =
     (case td_expected_output test_case of
        None \<Rightarrow>
          Inl (AttributeError (quoted ''NoneType'' @ '' object has no attribute '' @ quoted ''lower''))
      | Some expected_output \<Rightarrow>
          let expected = lower expected_output;
              response = lower model_response
          in if expected \<noteq> [] then
               let expected_words = set (py_split expected);
                   response_words = set (py_split response)
               in if card expected_words = 0 then Inl (ZeroDivisionError ''division by zero'')
                  else
                    let overlap = real (card (expected_words \<inter> response_words)) / real (card expected_words)
                    in if overlap > 7 / 10 then
                         Inr (score_line 9 ''Excellent accuracy. The answer closely matches expected content with high keyword overlap.'')
                       else if overlap > 5 / 10 then
                         Inr (score_line (75 / 10) ''Good accuracy. Most key information is present with reasonable alignment to expected answer.'')
                       else
                         Inr (score_line 6 ''Moderate accuracy. Some expected information is missing or incorrectly stated.'')
             else if length response > 50 \<and> \<not> contains ''?'' response then
               Inr (score_line 7 ''Reasonable response length and structure. Answer appears complete and relevant.'')
             else
               Inr (score_line 5 ''Response may be too brief or unclear. Consider providing more detailed information.''))"

subsection \<open>Reasoning\<close>

definition structure_indicators :: "string list" where
  "structure_indicators =
     [''step'', ''first'', ''second'', ''therefore'', ''because'', ''since'', ''conclusion'']"

definition logical_words :: "string list" where
  "logical_words = [''if'', ''then'', ''and'', ''or'', ''not'', ''all'', ''some'', ''therefore'']"

definition reasoning_mock_evaluation :: "test_case_dict \<Rightarrow> string \<Rightarrow> string" where
  "reasoning_mock_evaluation test_case model_response =
     (let response = lower model_response;
          structure_count = count_in structure_indicators response;
          logical_count = count_in logical_words response;
          score = 5;
          (score, feedback) =
             (if structure_count \<ge> 3 then
                (score + 2, ''Well-structured reasoning with clear step-by-step analysis.'')
              else if structure_count \<ge> 1 then
                (score + 1, ''Some structure present in the reasoning process.'')
              else (score, ''Reasoning could benefit from more structured approach.''));
          (score, feedback) =
             (if logical_count \<ge> 5 then
                (score + 2, feedback @ '' Strong use of logical connectives and formal reasoning.'')
              else if logical_count \<ge> 2 then
                (score + 1, feedback @ '' Adequate use of logical language.'')
              else (score, feedback));
          (score, feedback) =
             (if length response > 200
              then (score + 1, feedback @ '' Comprehensive explanation provided.'')
              else (score, feedback))
      in score_line (min score 10) feedback)"

subsection \<open>\<^verbatim>\<open>evaluate_response\<close>\<close>

definition mock_evaluation :: "evaluator \<Rightarrow> test_case_dict \<Rightarrow> string \<Rightarrow> py_error + string" where
  "mock_evaluation e test_case model_response =
     (case e of
        SummarizationEvaluator \<Rightarrow> summarization_mock_evaluation test_case model_response
      | QAEvaluator \<Rightarrow> qa_mock_evaluation test_case model_response
      | ReasoningEvaluator \<Rightarrow> Inr (reasoning_mock_evaluation test_case model_response))"

definition evaluator_name :: "evaluator \<Rightarrow> string" where
  "evaluator_name e =
     (case e of
        SummarizationEvaluator \<Rightarrow> ''SummarizationEvaluator''
      | QAEvaluator \<Rightarrow> ''QAEvaluator''
      | ReasoningEvaluator \<Rightarrow> ''ReasoningEvaluator'')"

definition evaluator_category :: "evaluator \<Rightarrow> string" where
  "evaluator_category e =
     (case e of
        SummarizationEvaluator \<Rightarrow> ''summarization''
      | QAEvaluator \<Rightarrow> ''qa''
      | ReasoningEvaluator \<Rightarrow> ''reasoning'')"

definition evaluate_response :: "evaluator \<Rightarrow> test_case_dict \<Rightarrow> string \<Rightarrow> py_error + evaluation" where
  "evaluate_response e test_case model_response =
     (case mock_evaluation e test_case model_response of
        Inl err \<Rightarrow> Inl err
      | Inr evaluation_text \<Rightarrow>
          (case extract_score evaluation_text of
             Inl err \<Rightarrow> Inl err
           | Inr score \<Rightarrow>
               Inr \<lparr>ev_score = score, ev_feedback = evaluation_text,
                    ev_category = evaluator_category e, ev_evaluator = evaluator_name e\<rparr>))"

section \<open>Providers\<close>

text \<open>The configuration dictionary, by the keys the providers read; \<open>None\<close> is an absent
  key, so \<^verbatim>\<open>cfg.get(k, d)\<close> is \<open>cfg_get (k cfg) d\<close>.\<close>

record model_config =
  cfg_name :: "string option"
  cfg_provider :: "string option"
  cfg_model_id :: "string option"
  cfg_cost_per_1k_tokens :: "real option"
  cfg_max_tokens :: "int option"

definition cfg_get :: "'a option \<Rightarrow> 'a \<Rightarrow> 'a" where
  "cfg_get v d = (case v of None \<Rightarrow> d | Some x \<Rightarrow> x)"

record llm_response =
  lr_content :: string
  lr_tokens_used :: int
  lr_response_time_ms :: real
  lr_cost_usd :: real
  lr_model_name :: string
  lr_error :: "string option"

datatype provider_class = OpenAIProvider | AnthropicProvider | MockProvider

text \<open>An instance: its class and the attributes set by \<^verbatim>\<open>BaseLLMProvider.__init__\<close>.\<close>

record provider =
  p_class :: provider_class
  p_name :: string
  p_model_id :: string
  p_cost_per_1k_tokens :: real
  p_max_tokens :: int

definition provider_init :: "provider_class \<Rightarrow> model_config \<Rightarrow> provider" where
  "provider_init cls model_config =
     \<lparr>p_class = cls,
      p_name = cfg_get (cfg_name model_config) ''unknown'',
      p_model_id = cfg_get (cfg_model_id model_config) ''unknown'',
      p_cost_per_1k_tokens = cfg_get (cfg_cost_per_1k_tokens model_config) 0,
      p_max_tokens = cfg_get (cfg_max_tokens model_config) 4096\<rparr>"

text \<open>The class attribute \<^verbatim>\<open>LLMProviderFactory._providers\<close> and the factory, which takes the
  registry as it stands at the call.\<close>

definition providers :: "string \<rightharpoonup> provider_class" where
  "providers =
     [''openai'' \<mapsto> OpenAIProvider, ''anthropic'' \<mapsto> AnthropicProvider, ''mock'' \<mapsto> MockProvider]"

definition register_provider ::
  "string \<Rightarrow> provider_class \<Rightarrow> (string \<rightharpoonup> provider_class) \<Rightarrow> (string \<rightharpoonup> provider_class)" where
  "register_provider name provider_class registry = registry(name \<mapsto> provider_class)"

definition create_provider :: "(string \<rightharpoonup> provider_class) \<Rightarrow> model_config \<Rightarrow> py_error + provider" where
  "create_provider registry model_config =
     (let provider_type = cfg_get (cfg_provider model_config) ''mock''
      in case registry provider_type of
           None \<Rightarrow> Inl (ValueError (''Unknown provider type: '' @ provider_type))
         | Some provider_class \<Rightarrow> Inr (provider_init provider_class model_config))"

definition calculate_cost :: "provider \<Rightarrow> int \<Rightarrow> real" where
  "calculate_cost self tokens_used = (real_of_int tokens_used / 1000) * p_cost_per_1k_tokens self"

text \<open>\<^verbatim>\<open>_create_response\<close>; \<open>elapsed_ms\<close> is \<^verbatim>\<open>(time.time() - start_time) * 1000\<close>.\<close>

definition create_response :: "provider \<Rightarrow> string \<Rightarrow> int \<Rightarrow> real \<Rightarrow> string option \<Rightarrow> llm_response" where
  "create_response self content tokens_used elapsed_ms error =
     \<lparr>lr_content = content,
      lr_tokens_used = tokens_used,
      lr_response_time_ms = elapsed_ms,
      lr_cost_usd = (if falsy error then calculate_cost self tokens_used else 0),
      lr_model_name = p_name self,
      lr_error = error\<rparr>"

text \<open>
  What one call of \<^verbatim>\<open>generate_completion\<close> takes from outside the program: the clock, the
  random variance the demo responses add to the latency, the canned text (picked by
  keywords of the prompt and, for the mock provider, by \<^verbatim>\<open>random.choice\<close>), whether the
  provider's API key is configured, and what the remote API answers: the text of an
  exception, or the content and the token count.
\<close>

record call_env =
  env_elapsed_ms :: real
  env_variance_ms :: real
  env_canned_text :: string
  env_api_key_set :: bool
  env_api_reply :: "string + string \<times> int"

definition estimate_tokens :: "provider_class \<Rightarrow> string \<Rightarrow> int" where
  "estimate_tokens cls text =
     (case cls of
        AnthropicProvider \<Rightarrow> (2 * int (length text)) div 7
      | _ \<Rightarrow> int (length text) div 4)"

definition api_error_prefix :: "provider_class \<Rightarrow> string" where
  "api_error_prefix cls =
     (case cls of
        OpenAIProvider \<Rightarrow> ''OpenAI API error: ''
      | AnthropicProvider \<Rightarrow> ''Anthropic API error: ''
      | MockProvider \<Rightarrow> '''')"

text \<open>\<^verbatim>\<open>_create_mock_response\<close> of the OpenAI and Anthropic providers (the token count is
  the length of prompt and text over 4, respectively over 3.5).\<close>

definition create_mock_response :: "call_env \<Rightarrow> provider \<Rightarrow> string \<Rightarrow> llm_response" where
  "create_mock_response env self prompt =
     (let content = env_canned_text env;
          tokens_used = estimate_tokens (p_class self) (prompt @ content)
      in \<lparr>lr_content = content,
          lr_tokens_used = tokens_used,
          lr_response_time_ms = env_elapsed_ms env + env_variance_ms env,
          lr_cost_usd = calculate_cost self tokens_used,
          lr_model_name = p_name self,
          lr_error = None\<rparr>)"

text \<open>\<^verbatim>\<open>generate_completion\<close>. The mock provider has no failing statement; the other two
  catch every exception of the remote call and report it in the response.\<close>

definition generate_completion :: "call_env \<Rightarrow> provider \<Rightarrow> string \<Rightarrow> llm_response" where
  "generate_completion env self prompt =
     (case p_class self of
        MockProvider \<Rightarrow>
          (let content = env_canned_text env;
               tokens_used = estimate_tokens MockProvider (prompt @ content)
           in create_response self content tokens_used (env_elapsed_ms env) None)
      | _ \<Rightarrow>
          if \<not> env_api_key_set env then create_mock_response env self prompt
          else
            (case env_api_reply env of
               Inr (content, tokens_used) \<Rightarrow>
                 create_response self content tokens_used (env_elapsed_ms env) None
             | Inl e \<Rightarrow>
                 create_response self '''' 0 (env_elapsed_ms env)
                   (Some (api_error_prefix (p_class self) @ e))))"

section \<open>Database and session\<close>

text \<open>The rows of \<^verbatim>\<open>src/database/models.py\<close>, with the columns the engine reads or writes
  (the keys of result and metrics rows and the timestamps are left out).\<close>

record llm_model =
  m_id :: int
  m_name :: string
  m_provider :: string
  m_model_id :: string
  m_cost_per_1k_tokens :: real
  m_max_tokens :: int
  m_is_active :: bool

record test_case =
  tc_id :: int
  tc_name :: string
  tc_category :: string
  tc_input_text :: string
  tc_expected_output :: "string option"
  tc_evaluation_criteria :: "string option"

record evaluation_run =
  run_id :: int
  run_name :: string
  run_description :: string
  run_status :: string

record evaluation_result =
  er_run_id :: int
  er_model_id :: int
  er_test_case_id :: int
  er_model_output :: string
  er_accuracy_score :: real
  er_response_time_ms :: real
  er_tokens_used :: int
  er_cost_usd :: real
  er_error_message :: "string option"
  er_agent_feedback :: "string option"

text \<open>The rank columns are empty until \<^verbatim>\<open>_calculate_rankings\<close> assigns them. The attribute
  \<^verbatim>\<open>overall_rank\<close> holds the weighted points (a float) between the two passes of the
  ranking and the position afterwards, so it is a real here.\<close>

record performance_metrics =
  pm_run_id :: int
  pm_model_id :: int
  pm_category :: string
  pm_avg_accuracy :: real
  pm_avg_response_time :: real
  pm_total_cost :: real
  pm_total_tokens :: int
  pm_success_rate :: real
  pm_accuracy_rank :: "int option"
  pm_speed_rank :: "int option"
  pm_cost_rank :: "int option"
  pm_overall_rank :: "real option"

record database =
  llm_models :: "llm_model list"
  test_cases :: "test_case list"
  evaluation_runs :: "evaluation_run list"
  evaluation_results :: "evaluation_result list"
  metrics_rows :: "performance_metrics list"

text \<open>
  \<^verbatim>\<open>SessionLocal = sessionmaker(autocommit=False, autoflush=False, bind=engine)\<close>:
  an object passed to \<^verbatim>\<open>db.add\<close> is pending in the session until \<^verbatim>\<open>db.commit()\<close> writes
  it. With \<^verbatim>\<open>autoflush=False\<close> a query does not write the pending objects first: it
  returns the rows that are in the tables, and no pending object. Closing the session
  drops what is still pending.
\<close>

record session =
  db :: database
  new_results :: "evaluation_result list"
  new_metrics :: "performance_metrics list"

definition session_local :: "database \<Rightarrow> session" where
  "session_local d = \<lparr>db = d, new_results = [], new_metrics = []\<rparr>"

definition session_close :: "session \<Rightarrow> database" where
  "session_close s = db s"

definition db_add_result :: "evaluation_result \<Rightarrow> session \<Rightarrow> session" where
  "db_add_result r s = s\<lparr>new_results := new_results s @ [r]\<rparr>"

definition db_add_metric :: "performance_metrics \<Rightarrow> session \<Rightarrow> session" where
  "db_add_metric m s = s\<lparr>new_metrics := new_metrics s @ [m]\<rparr>"

definition db_commit :: "session \<Rightarrow> session" where
  "db_commit s =
     \<lparr>db = (db s)\<lparr>evaluation_results := evaluation_results (db s) @ new_results s,
                   metrics_rows := metrics_rows (db s) @ new_metrics s\<rparr>,
      new_results = [],
      new_metrics = []\<rparr>"

text \<open>The key of a new run row: one above the largest key in the table.\<close>

definition next_run_id :: "database \<Rightarrow> int" where
  "next_run_id d = fold max (map run_id (evaluation_runs d)) 0 + 1"

text \<open>\<^verbatim>\<open>db.add(eval_run); db.commit(); db.refresh(eval_run)\<close>.\<close>

definition db_insert_run :: "evaluation_run \<Rightarrow> session \<Rightarrow> session" where
  "db_insert_run r s =
     db_commit (s\<lparr>db := (db s)\<lparr>evaluation_runs := evaluation_runs (db s) @ [r]\<rparr>\<rparr>)"

text \<open>\<^verbatim>\<open>eval_run.status = st; db.commit()\<close>.\<close>

definition set_run_status :: "int \<Rightarrow> string \<Rightarrow> session \<Rightarrow> session" where
  "set_run_status rid st s =
     db_commit (s\<lparr>db := (db s)\<lparr>evaluation_runs :=
        map (\<lambda>r. if run_id r = rid then r\<lparr>run_status := st\<rparr> else r) (evaluation_runs (db s))\<rparr>\<rparr>)"

definition query_models :: "int list \<Rightarrow> session \<Rightarrow> llm_model list" where
  "query_models model_ids s =
     filter (\<lambda>m. m_id m \<in> set model_ids \<and> m_is_active m) (llm_models (db s))"

text \<open>The filters \<^verbatim>\<open>if test_case_ids:\<close> and \<^verbatim>\<open>if categories:\<close> apply to a list that is
  given and not empty.\<close>

definition query_test_cases :: "int list option \<Rightarrow> string list option \<Rightarrow> session \<Rightarrow> test_case list" where
  "query_test_cases test_case_ids categories s =
     (let query = test_cases (db s);
          query = (case test_case_ids of
                     None \<Rightarrow> query
                   | Some ids \<Rightarrow> if ids = [] then query else filter (\<lambda>t. tc_id t \<in> set ids) query);
          query = (case categories of
                     None \<Rightarrow> query
                   | Some cs \<Rightarrow> if cs = [] then query else filter (\<lambda>t. tc_category t \<in> set cs) query)
      in query)"

definition query_results :: "int \<Rightarrow> session \<Rightarrow> evaluation_result list" where
  "query_results rid s = filter (\<lambda>r. er_run_id r = rid) (evaluation_results (db s))"

text \<open>The relationship \<^verbatim>\<open>result.test_case\<close>: the row with the result's test-case key.\<close>

definition result_test_case :: "session \<Rightarrow> evaluation_result \<Rightarrow> test_case option" where
  "result_test_case s r = find (\<lambda>t. tc_id t = er_test_case_id r) (test_cases (db s))"

section \<open>Evaluation engine\<close>

text \<open>\<^verbatim>\<open>self.evaluators\<close>, set in \<^verbatim>\<open>EvaluationEngine.__init__\<close>.\<close>

definition evaluators :: "string \<rightharpoonup> evaluator" where
  "evaluators =
     [''summarization'' \<mapsto> SummarizationEvaluator, ''qa'' \<mapsto> QAEvaluator,
      ''reasoning'' \<mapsto> ReasoningEvaluator]"

subsection \<open>One pair\<close>

definition evaluate_single_case ::
  "call_env \<Rightarrow> int \<Rightarrow> llm_model \<Rightarrow> test_case \<Rightarrow> session \<Rightarrow> (py_error + evaluation_result) \<times> session" where
  "evaluate_single_case env eval_run_id model test_case s =
     (let model_config =
            \<lparr>cfg_name = Some (m_name model),
             cfg_provider = Some (m_provider model),
             cfg_model_id = Some (m_model_id model),
             cfg_cost_per_1k_tokens = Some (m_cost_per_1k_tokens model),
             cfg_max_tokens = Some (m_max_tokens model)\<rparr>
      in case create_provider providers model_config of
           Inl e \<Rightarrow> (Inl e, s)
         | Inr provider \<Rightarrow>
             (let llm_response = generate_completion env provider (tc_input_text test_case)
              in (case evaluators (tc_category test_case) of
                  None \<Rightarrow>
                    (Inl (ValueError (''No evaluator found for category: '' @ tc_category test_case)), s)
                | Some evaluator \<Rightarrow>
                    (case evaluate_response evaluator
                            \<lparr>td_input_text = tc_input_text test_case,
                             td_expected_output = tc_expected_output test_case,
                             td_category = tc_category test_case,
                             td_evaluation_criteria = tc_evaluation_criteria test_case\<rparr>
                            (lr_content llm_response) of
                       Inl e \<Rightarrow> (Inl e, s)
                     | Inr evaluation \<Rightarrow>
                         (let result =
                               \<lparr>er_run_id = eval_run_id,
                                er_model_id = m_id model,
                                er_test_case_id = tc_id test_case,
                                er_model_output = lr_content llm_response,
                                er_accuracy_score = ev_score evaluation,
                                er_response_time_ms = lr_response_time_ms llm_response,
                                er_tokens_used = lr_tokens_used llm_response,
                                er_cost_usd = lr_cost_usd llm_response,
                                er_error_message = lr_error llm_response,
                                er_agent_feedback = Some (ev_feedback evaluation)\<rparr>
                         in (Inr result, db_commit (db_add_result result s)))))))"

subsection \<open>Aggregation\<close>

record group_stats =
  gs_scores :: "real list"
  gs_response_times :: "real list"
  gs_costs :: "real list"
  gs_tokens :: "int list"
  gs_success_count :: nat
  gs_total_count :: nat

text \<open>The dictionary \<^verbatim>\<open>model_category_stats\<close>, in the order its keys were inserted.\<close>

type_synonym stats_table = "((int \<times> string) \<times> group_stats) list"

definition new_stats :: group_stats where
  "new_stats =
     \<lparr>gs_scores = [], gs_response_times = [], gs_costs = [], gs_tokens = [],
      gs_success_count = 0, gs_total_count = 0\<rparr>"

fun table_update :: "'k \<Rightarrow> ('v \<Rightarrow> 'v) \<Rightarrow> ('k \<times> 'v) list \<Rightarrow> ('k \<times> 'v) list" where
  "table_update k f [] = []"
| "table_update k f ((k', v) # rest) =
     (if k' = k then (k', f v) # rest else (k', v) # table_update k f rest)"

text \<open>The body of the loop over the results, for a result whose category is known.\<close>

definition count_result :: "evaluation_result \<Rightarrow> group_stats \<Rightarrow> group_stats" where
  "count_result result stats =
     (let stats = stats\<lparr>gs_total_count := gs_total_count stats + 1\<rparr>
      in if falsy (er_error_message result)
         then stats\<lparr>gs_success_count := gs_success_count stats + 1,
                    gs_scores := gs_scores stats @ [er_accuracy_score result],
                    gs_response_times := gs_response_times stats @ [er_response_time_ms result],
                    gs_costs := gs_costs stats @ [er_cost_usd result],
                    gs_tokens := gs_tokens stats @ [er_tokens_used result]\<rparr>
         else stats)"

definition record_result :: "int \<times> string \<Rightarrow> evaluation_result \<Rightarrow> stats_table \<Rightarrow> stats_table" where
  "record_result key result tab =
     (let tab = (if map_of tab key = None then tab @ [(key, new_stats)] else tab)
      in table_update key (count_result result) tab)"

fun group_results :: "session \<Rightarrow> evaluation_result list \<Rightarrow> stats_table \<Rightarrow> py_error + stats_table" where
  "group_results s [] tab = Inr tab"
| "group_results s (result # results) tab =
     (case result_test_case s result of
        None \<Rightarrow>
          Inl (AttributeError (quoted ''NoneType'' @ '' object has no attribute '' @ quoted ''category''))
      | Some tc \<Rightarrow>
          group_results s results (record_result (er_model_id result, tc_category tc) result tab))"

text \<open>The metrics row of one group. \<open>gs_total_count\<close> is at least 1 for a group of the
  table, so the division of the source does not fail.\<close>

definition category_metric :: "int \<Rightarrow> int \<times> string \<Rightarrow> group_stats \<Rightarrow> performance_metrics" where
  "category_metric eval_run_id key stats =
     (let (avg_accuracy, avg_response_time, total_cost, total_tokens) =
            (if gs_scores stats \<noteq> [] then
               (sum_list (gs_scores stats) / real (length (gs_scores stats)),
                sum_list (gs_response_times stats) / real (length (gs_response_times stats)),
                sum_list (gs_costs stats),
                sum_list (gs_tokens stats))
             else (0, 0, 0, 0));
          success_rate = real (gs_success_count stats) / real (gs_total_count stats)
      in \<lparr>pm_run_id = eval_run_id,
          pm_model_id = fst key,
          pm_category = snd key,
          pm_avg_accuracy = avg_accuracy,
          pm_avg_response_time = avg_response_time,
          pm_total_cost = total_cost,
          pm_total_tokens = total_tokens,
          pm_success_rate = success_rate,
          pm_accuracy_rank = None,
          pm_speed_rank = None,
          pm_cost_rank = None,
          pm_overall_rank = None\<rparr>)"

text \<open>The row with category \<^verbatim>\<open>"overall"\<close> of one model, when the model has results.\<close>

definition overall_metric ::
  "int \<Rightarrow> llm_model \<Rightarrow> evaluation_result list \<Rightarrow> performance_metrics option" where
  "overall_metric eval_run_id model results =
     (let model_results = filter (\<lambda>r. er_model_id r = m_id model) results
      in if model_results \<noteq> [] then
           let successful_results = filter (\<lambda>r. falsy (er_error_message r)) model_results;
               (avg_accuracy, avg_response_time, total_cost, total_tokens) =
                 (if successful_results \<noteq> [] then
                    (sum_list (map er_accuracy_score successful_results) / real (length successful_results),
                     sum_list (map er_response_time_ms successful_results) / real (length successful_results),
                     sum_list (map er_cost_usd successful_results),
                     sum_list (map er_tokens_used successful_results))
                  else (0, 0, 0, 0));
               success_rate = real (length successful_results) / real (length model_results)
           in Some \<lparr>pm_run_id = eval_run_id,
                    pm_model_id = m_id model,
                    pm_category = ''overall'',
                    pm_avg_accuracy = avg_accuracy,
                    pm_avg_response_time = avg_response_time,
                    pm_total_cost = total_cost,
                    pm_total_tokens = total_tokens,
                    pm_success_rate = success_rate,
                    pm_accuracy_rank = None,
                    pm_speed_rank = None,
                    pm_cost_rank = None,
                    pm_overall_rank = None\<rparr>
         else None)"

subsection \<open>Ranking\<close>

text \<open>
  \<^verbatim>\<open>_calculate_rankings\<close> queries the metrics rows of the run. The rows the query returns
  are objects of the session, and assigning a rank to one changes its row (written with
  the commit that follows the call); a metrics object is named here by its position in
  the table. Pending objects are not returned by the query, as the session does not
  flush before it.

  \<^verbatim>\<open>sorted\<close> is stable, also with \<^verbatim>\<open>reverse=True\<close>: rows with equal keys keep the order
  of the group. \<open>sort_key\<close> is a stable insertion sort, and the descending order is the
  ascending order of the negated key.
\<close>

definition query_metrics :: "int \<Rightarrow> session \<Rightarrow> nat list" where
  "query_metrics rid s =
     filter (\<lambda>i. pm_run_id (metrics_rows (db s) ! i) = rid) [0..<length (metrics_rows (db s))]"

definition add_to_category ::
  "performance_metrics list \<Rightarrow> nat \<Rightarrow> (string \<times> nat list) list \<Rightarrow> (string \<times> nat list) list" where
  "add_to_category rows i tab =
     (let category = pm_category (rows ! i);
          tab = (if map_of tab category = None then tab @ [(category, [])] else tab)
      in table_update category (\<lambda>cat_metrics. cat_metrics @ [i]) tab)"

text \<open>\<^verbatim>\<open>for rank, metric in enumerate(sorted_metrics, 1): metric.field = rank\<close>.\<close>

definition enumerate1 :: "'a list \<Rightarrow> (int \<times> 'a) list" where
  "enumerate1 xs = zip (map int [1..<Suc (length xs)]) xs"

definition assign_ranks ::
  "(int \<Rightarrow> performance_metrics \<Rightarrow> performance_metrics) \<Rightarrow> nat list \<Rightarrow>
   performance_metrics list \<Rightarrow> performance_metrics list" where
  "assign_ranks set_rank sorted_metrics rows =
     fold (\<lambda>(rank, i) rows. rows[i := set_rank rank (rows ! i)]) (enumerate1 sorted_metrics) rows"

text \<open>The weighted points; the three ranks were assigned by the loops before it.\<close>

definition overall_score :: "nat \<Rightarrow> performance_metrics \<Rightarrow> real" where
  "overall_score n metric =
     real_of_int (int n - the (pm_accuracy_rank metric) + 1) * (5 / 10)
     + real_of_int (int n - the (pm_speed_rank metric) + 1) * (25 / 100)
     + real_of_int (int n - the (pm_cost_rank metric) + 1) * (25 / 100)"

definition rank_category :: "nat list \<Rightarrow> performance_metrics list \<Rightarrow> performance_metrics list" where
  "rank_category cat_metrics rows =
     (let sorted_by_accuracy = sort_key (\<lambda>i. - pm_avg_accuracy (rows ! i)) cat_metrics;
          rows = assign_ranks (\<lambda>rank m. m\<lparr>pm_accuracy_rank := Some rank\<rparr>) sorted_by_accuracy rows;
          sorted_by_speed = sort_key (\<lambda>i. pm_avg_response_time (rows ! i)) cat_metrics;
          rows = assign_ranks (\<lambda>rank m. m\<lparr>pm_speed_rank := Some rank\<rparr>) sorted_by_speed rows;
          sorted_by_cost = sort_key (\<lambda>i. pm_total_cost (rows ! i)) cat_metrics;
          rows = assign_ranks (\<lambda>rank m. m\<lparr>pm_cost_rank := Some rank\<rparr>) sorted_by_cost rows;
          rows = fold (\<lambda>i rows. rows[i := (rows ! i)\<lparr>pm_overall_rank :=
                          Some (overall_score (length cat_metrics) (rows ! i))\<rparr>]) cat_metrics rows;
          sorted_by_overall = sort_key (\<lambda>i. - the (pm_overall_rank (rows ! i))) cat_metrics;
          rows = assign_ranks (\<lambda>rank m. m\<lparr>pm_overall_rank := Some (real_of_int rank)\<rparr>)
                   sorted_by_overall rows
      in rows)"

definition calculate_rankings :: "int \<Rightarrow> session \<Rightarrow> session" where
  "calculate_rankings eval_run_id s =
     (let rows = metrics_rows (db s);
          metrics = query_metrics eval_run_id s;
          category_metrics = fold (add_to_category rows) metrics [];
          rows = fold (\<lambda>(category, cat_metrics). rank_category cat_metrics) category_metrics rows
      in s\<lparr>db := (db s)\<lparr>metrics_rows := rows\<rparr>\<rparr>)"

subsection \<open>\<^verbatim>\<open>_generate_performance_metrics\<close>\<close>

definition generate_performance_metrics :: "int \<Rightarrow> llm_model list \<Rightarrow> session \<Rightarrow> py_error + session" where
  "generate_performance_metrics eval_run_id models s =
     (let results = query_results eval_run_id s
      in case group_results s results [] of
           Inl e \<Rightarrow> Inl e
         | Inr model_category_stats \<Rightarrow>
             (let s = fold (\<lambda>(key, stats). db_add_metric (category_metric eval_run_id key stats))
                        model_category_stats s;
                  s = fold (\<lambda>model s.
                              case overall_metric eval_run_id model results of
                                None \<Rightarrow> s
                              | Some metric \<Rightarrow> db_add_metric metric s)
                        models s;
                  s = calculate_rankings eval_run_id s
              in Inr (db_commit s)))"

subsection \<open>\<^verbatim>\<open>run_evaluation\<close>\<close>

record run_summary =
  rs_evaluation_id :: int
  rs_status :: string
  rs_total_results :: nat
  rs_models_evaluated :: nat
  rs_test_cases_run :: nat

text \<open>The handler of the inner \<^verbatim>\<open>try\<close>: a pair whose attempt raised gets an error row,
  which is added to the session and not committed.\<close>

definition error_result :: "int \<Rightarrow> llm_model \<Rightarrow> test_case \<Rightarrow> py_error \<Rightarrow> evaluation_result" where
  "error_result eval_run_id model test_case e =
     \<lparr>er_run_id = eval_run_id,
      er_model_id = m_id model,
      er_test_case_id = tc_id test_case,
      er_model_output = '''',
      er_accuracy_score = 0,
      er_response_time_ms = 0,
      er_tokens_used = 0,
      er_cost_usd = 0,
      er_error_message = Some (error_str e),
      er_agent_feedback = None\<rparr>"

text \<open>The body of the two loops. \<open>env\<close> gives the outside world of the provider call of
  each pair, by the keys of the model and of the test case.\<close>

definition attempt ::
  "(int \<Rightarrow> int \<Rightarrow> call_env) \<Rightarrow> int \<Rightarrow> llm_model \<Rightarrow> test_case \<Rightarrow>
   session \<times> evaluation_result list \<Rightarrow> session \<times> evaluation_result list" where
  "attempt env eval_run_id model test_case st =
     (case st of (s, all_results) \<Rightarrow>
        (case evaluate_single_case (env (m_id model) (tc_id test_case)) eval_run_id model test_case s of
           (Inr result, s') \<Rightarrow> (s', all_results @ [result])
         | (Inl e, s') \<Rightarrow>
             (let row = error_result eval_run_id model test_case e
              in (db_add_result row s', all_results @ [row]))))"

text \<open>The handler of the outer \<^verbatim>\<open>try\<close>: the run row exists by then, it is marked failed,
  the session is committed and the exception goes on to the caller.\<close>

definition run_failed :: "int \<Rightarrow> py_error \<Rightarrow> session \<Rightarrow> (py_error + run_summary) \<times> database" where
  "run_failed eval_run_id e s = (Inl e, session_close (set_run_status eval_run_id ''failed'' s))"

definition run_evaluation ::
  "(int \<Rightarrow> int \<Rightarrow> call_env) \<Rightarrow> database \<Rightarrow> string \<Rightarrow> int list \<Rightarrow> int list option \<Rightarrow>
   string list option \<Rightarrow> (py_error + run_summary) \<times> database" where
  "run_evaluation env d evaluation_name model_ids test_case_ids categories =
     (let s = session_local d;
          eval_run = \<lparr>run_id = next_run_id d,
                      run_name = evaluation_name,
                      run_description = ''Evaluation of '' @ nat_digits (length model_ids) @ '' models'',
                      run_status = ''running''\<rparr>;
          s = db_insert_run eval_run s;
          models = query_models model_ids s;
          test_cases = query_test_cases test_case_ids categories s
      in if models = [] then
           run_failed (run_id eval_run) (ValueError ''No active models found for evaluation'') s
         else if test_cases = [] then
           run_failed (run_id eval_run) (ValueError ''No test cases found for evaluation'') s
         else
           (case fold (\<lambda>model. fold (attempt env (run_id eval_run) model) test_cases) models (s, []) of
              (s, all_results) \<Rightarrow>
                (case generate_performance_metrics (run_id eval_run) models s of
                   Inl e \<Rightarrow> run_failed (run_id eval_run) e s
                 | Inr s \<Rightarrow>
                     (Inr \<lparr>rs_evaluation_id = run_id eval_run,
                           rs_status = ''completed'',
                           rs_total_results = length all_results,
                           rs_models_evaluated = length models,
                           rs_test_cases_run = length test_cases\<rparr>,
                      session_close (set_run_status (run_id eval_run) ''completed'' s)))))"


section \<open>Example data\<close>

text \<open>Two configurations: one without the key \<^verbatim>\<open>"provider"\<close>, one naming a provider type
  that is not registered.\<close>

definition cfg_no_provider :: model_config where
  "cfg_no_provider =
     \<lparr>cfg_name = Some ''demo'', cfg_provider = None, cfg_model_id = Some ''demo-1'',
      cfg_cost_per_1k_tokens = Some (1 / 100), cfg_max_tokens = Some 4096\<rparr>"

definition cfg_local :: model_config where
  "cfg_local =
     \<lparr>cfg_name = Some ''local model'', cfg_provider = Some ''local'', cfg_model_id = Some ''llama'',
      cfg_cost_per_1k_tokens = Some 0, cfg_max_tokens = Some 2048\<rparr>"

text \<open>A database with a mock model and an OpenAI model, a reasoning test case and a test
  case of a category that has no evaluator; an outside world in which the OpenAI model
  has an API key and its remote call fails.\<close>

definition m_mock :: llm_model where
  "m_mock =
     \<lparr>m_id = 1, m_name = ''Mock'', m_provider = ''mock'', m_model_id = ''mock-1'',
      m_cost_per_1k_tokens = 1 / 100, m_max_tokens = 4096, m_is_active = True\<rparr>"

definition m_openai :: llm_model where
  "m_openai =
     \<lparr>m_id = 2, m_name = ''GPT'', m_provider = ''openai'', m_model_id = ''gpt-4'',
      m_cost_per_1k_tokens = 3 / 100, m_max_tokens = 8192, m_is_active = True\<rparr>"

definition t_reasoning :: test_case where
  "t_reasoning =
     \<lparr>tc_id = 1, tc_name = ''syllogism'', tc_category = ''reasoning'', tc_input_text = ''Why?'',
      tc_expected_output = None, tc_evaluation_criteria = None\<rparr>"

definition t_translation :: test_case where
  "t_translation =
     \<lparr>tc_id = 2, tc_name = ''greeting'', tc_category = ''translation'', tc_input_text = ''Hello'',
      tc_expected_output = None, tc_evaluation_criteria = None\<rparr>"

definition demo_db :: database where
  "demo_db =
     \<lparr>llm_models = [m_mock, m_openai], test_cases = [t_reasoning, t_translation],
      evaluation_runs = [], evaluation_results = [], metrics_rows = []\<rparr>"

definition demo_env :: "int \<Rightarrow> int \<Rightarrow> call_env" where
  "demo_env i j =
     \<lparr>env_elapsed_ms = 250, env_variance_ms = 100, env_canned_text = ''Step one, therefore'',
      env_api_key_set = (i = 2), env_api_reply = Inl ''timeout''\<rparr>"

text \<open>The run of both models on both test cases, and a run that selects no model.\<close>

definition demo_run :: "(py_error + run_summary) \<times> database" where
  "demo_run = run_evaluation demo_env demo_db ''demo'' [1, 2] None None"

definition empty_run :: "(py_error + run_summary) \<times> database" where
  "empty_run = run_evaluation demo_env demo_db ''nothing'' [] None None"

text \<open>A run of the mock model on the test case whose category has no evaluator alone.\<close>

definition lone_run :: "(py_error + run_summary) \<times> database" where
  "lone_run = run_evaluation demo_env demo_db ''lone'' [1] (Some [2]) None"

text \<open>The run of the mock model alone on both test cases.\<close>

definition mock_run :: "(py_error + run_summary) \<times> database" where
  "mock_run = run_evaluation demo_env demo_db ''mock'' [1] None None"

section \<open>Auxiliary notions for the statements\<close>

text \<open>The group captured by the first pattern of a list that matches a text, if any:
  what the loop of \<^verbatim>\<open>_extract_score\<close> passes to \<^verbatim>\<open>float\<close>.\<close>

fun first_group :: "pattern list \<Rightarrow> string \<Rightarrow> string option" where
  "first_group [] t = None"
| "first_group (p # ps) t =
     (case re_search p t of Some g \<Rightarrow> Some g | None \<Rightarrow> first_group ps t)"

text \<open>The outcome of the attempt of one pair. \<^verbatim>\<open>_evaluate_single_case\<close> raises, or builds
  its result, before it touches the session, so the outcome is the same in every
  session; it is read off here in an empty one.\<close>

definition empty_database :: database where
  "empty_database =
     \<lparr>llm_models = [], test_cases = [], evaluation_runs = [], evaluation_results = [],
      metrics_rows = []\<rparr>"

definition pair_outcome :: "call_env \<Rightarrow> int \<Rightarrow> llm_model \<Rightarrow> test_case \<Rightarrow> py_error + evaluation_result" where
  "pair_outcome env eval_run_id model test_case =
     fst (evaluate_single_case env eval_run_id model test_case (session_local empty_database))"

text \<open>The row a pair leaves behind: the result of the attempt, or the error row of the
  handler.\<close>

definition pair_row :: "call_env \<Rightarrow> int \<Rightarrow> llm_model \<Rightarrow> test_case \<Rightarrow> evaluation_result" where
  "pair_row env eval_run_id model test_case =
     (case pair_outcome env eval_run_id model test_case of
        Inr result \<Rightarrow> result
      | Inl e \<Rightarrow> error_result eval_run_id model test_case e)"

definition run_rows ::
  "(int \<Rightarrow> int \<Rightarrow> call_env) \<Rightarrow> int \<Rightarrow> llm_model list \<Rightarrow> test_case list \<Rightarrow> evaluation_result list" where
  "run_rows env eval_run_id models tcs =
     map (\<lambda>(m, t). pair_row (env (m_id m) (tc_id t)) eval_run_id m t) (List.product models tcs)"

text \<open>The result rows a session holds, written or pending, in the order of their
  \<^verbatim>\<open>db.add\<close>.\<close>

definition stored_results :: "session \<Rightarrow> evaluation_result list" where
  "stored_results s = evaluation_results (db s) @ new_results s"

text \<open>The group key of a result: its model and the category of its test case.\<close>

definition result_key :: "session \<Rightarrow> evaluation_result \<Rightarrow> (int \<times> string) option" where
  "result_key s r = map_option (\<lambda>tc. (er_model_id r, tc_category tc)) (result_test_case s r)"

text \<open>The metrics rows a step has appended to the table.\<close>

definition added_metrics :: "session \<Rightarrow> session \<Rightarrow> performance_metrics list" where
  "added_metrics s s' = drop (length (metrics_rows (db s))) (metrics_rows (db s'))"

text \<open>The metrics rows the aggregation appends when it runs on a database as it is
  stored, every row of which is committed.\<close>

definition reaggregate :: "int \<Rightarrow> llm_model list \<Rightarrow> database \<Rightarrow> performance_metrics list" where
  "reaggregate eval_run_id models d =
     (case generate_performance_metrics eval_run_id models (session_local d) of
        Inl e \<Rightarrow> []
      | Inr s \<Rightarrow> added_metrics (session_local d) s)"


section \<open>Strings and score lines\<close>

lemma of_char_lower_char:
  "(of_char (lower_char c) :: nat) =
     (if (65 \<le> (of_char c :: nat) \<and> (of_char c :: nat) \<le> 90)
         \<or> (192 \<le> (of_char c :: nat) \<and> (of_char c :: nat) \<le> 222 \<and> (of_char c :: nat) \<noteq> 215)
      then of_char c + 32 else of_char c)"
proof -
  have h: "\<And>m::nat. m < 256 \<Longrightarrow> (of_char (char_of m :: char) :: nat) = m"
    by simp
  have "(of_char c :: nat) \<le> 222 \<Longrightarrow>
        (of_char (char_of (of_char c + 32 :: nat) :: char) :: nat) = of_char c + 32"
    by (rule h) simp
  then show ?thesis
    unfolding lower_char_def Let_def
    by (auto simp del: of_char_of)
qed

lemma slash_code: "c = CHR ''/'' \<longleftrightarrow> (of_char c :: nat) = 47"
proof -
  have "(of_char (CHR ''/'') :: nat) = 47" by simp
  then show ?thesis by (metis of_char_eq_iff)
qed

lemma lower_char_slash: "lower_char c = CHR ''/'' \<longleftrightarrow> c = CHR ''/''"
  unfolding slash_code of_char_lower_char by presburger

lemma strip_prefix_head: "c \<notin> set s \<Longrightarrow> strip_prefix (c # sub) s = None"
  by (cases s) auto

lemma contains_head: "c \<notin> set s \<Longrightarrow> \<not> contains (c # sub) s"
  by (induction s) auto

lemma no_slash_lower: "CHR ''/'' \<notin> set s \<Longrightarrow> CHR ''/'' \<notin> set (lower s)"
  unfolding lower_def using lower_char_slash by (metis imageE list.set_map)

lemma format_scores:
  "format_1f 5 = ''5.0''" "format_1f 6 = ''6.0''" "format_1f 7 = ''7.0''"
  "format_1f 8 = ''8.0''" "format_1f 9 = ''9.0''" "format_1f 10 = ''10.0''"
  by code_simp+

lemma float_scores:
  "py_float ''5.0'' = Some 5" "py_float ''6.0'' = Some 6" "py_float ''7.0'' = Some 7"
  "py_float ''8.0'' = Some 8" "py_float ''9.0'' = Some 9" "py_float ''10.0'' = Some 10"
  by code_simp+


lemma lower_append: "lower (a @ b) = lower a @ lower b"
  by (simp add: lower_def)

lemma lower_score_prefix: "lower ''Score: '' = ''score: ''"
  by code_simp

lemma lower_newline: "lower (CHR 0x0A # r) = CHR 0x0A # lower r"
proof -
  have "lower [CHR 0x0A] = [CHR 0x0A]" by code_simp
  then show ?thesis by (simp add: lower_def)
qed

lemma sep_facts: "is_sep CHR '':''" "is_sep CHR '' ''" "\<not> is_num (CHR 0x0A)"
  by (simp_all add: is_sep_def is_space_def is_num_def is_digit_def)

lemma search_score:
  assumes "ds \<noteq> []" and "\<forall>c \<in> set ds. is_num c \<and> \<not> is_sep c"
  shows "re_search (Keyword ''score'') (''score: '' @ ds @ CHR 0x0A # r) = Some ds"
proof -
  obtain d ds' where d: "ds = d # ds'" using assms(1) by (cases ds) auto
  have a: "takeWhile is_sep ('': '' @ ds @ CHR 0x0A # r) = '': ''"
    using assms(2) d by (simp add: sep_facts)
  have b: "dropWhile is_sep ('': '' @ ds @ CHR 0x0A # r) = ds @ CHR 0x0A # r"
    using assms(2) d by (simp add: sep_facts)
  have c: "takeWhile is_num (ds @ CHR 0x0A # r) = ds"
    using assms(2) by (simp add: takeWhile_append2 sep_facts)
  have "match_at (Keyword ''score'') (''score: '' @ ds @ CHR 0x0A # r) = Some ds"
    using a b c assms(1) by simp
  then show ?thesis by simp
qed


lemma num_not_sep: "is_num c \<Longrightarrow> \<not> is_sep c"
  by (auto simp: is_num_def is_sep_def is_digit_def is_space_def Let_def)

lemma lower_char_num: "is_num c \<Longrightarrow> lower_char c = c"
  by (auto simp: is_num_def is_digit_def lower_char_def Let_def)

lemma extract_score_line:
  assumes x: "x \<in> {5, 6, 7, 8, 9, 10}" and fb: "CHR ''/'' \<notin> set fb"
  shows "extract_score (score_line x fb) = Inr (x / 10)"
proof -
  obtain ds where ds: "format_1f x = ds" "ds \<in> {''5.0'', ''6.0'', ''7.0'', ''8.0'', ''9.0'', ''10.0''}"
    "py_float ds = Some x"
    using x format_scores float_scores by auto
  have num: "\<forall>c \<in> set ds. is_num c"
    using ds(2) by (auto simp: is_num_def is_digit_def)
  then have sep: "\<forall>c \<in> set ds. is_num c \<and> \<not> is_sep c"
    using num_not_sep by blast
  have lds: "lower ds = ds"
    using num by (simp add: lower_def lower_char_num map_idI)
  have ne: "ds \<noteq> []" using ds(2) by auto
  have "CHR ''/'' \<notin> set (score_line x fb)"
    using fb ds(1,2) by (auto simp: score_line_def)
  then have nc: "\<not> contains ''/10'' (lower (score_line x fb))" "\<not> contains ''/100'' (lower (score_line x fb))"
    using no_slash_lower contains_head by blast+
  have "score_line x fb = ''Score: '' @ (ds @ (CHR 0x0A # (''Feedback: '' @ fb)))"
    using ds(1) by (simp add: score_line_def)
  then have "lower (score_line x fb)
             = lower ''Score: '' @ (lower ds @ lower (CHR 0x0A # (''Feedback: '' @ fb)))"
    by (simp only: lower_append)
  then have "lower (score_line x fb) = ''score: '' @ ds @ CHR 0x0A # lower (''Feedback: '' @ fb)"
    by (simp only: lower_score_prefix lds lower_newline)
  then have "re_search (Keyword ''score'') (lower (score_line x fb)) = Some ds"
    using search_score [OF ne sep] by simp
  then have "extract_score (score_line x fb) = Inr (normalize_score (score_line x fb) x)"
    using ds(3) by (simp add: extract_score_def patterns_def)
  moreover have "\<not> x \<le> 1" "x \<le> 10" using x by auto
  ultimately show ?thesis using nc by (simp add: normalize_score_def)
qed

section \<open>Score extraction: range\<close>

lemma scan_patterns_first_group:
  "scan_patterns ps text =
     (case first_group ps (lower text) of
        None \<Rightarrow> Inr (keyword_score text)
      | Some g \<Rightarrow>
          (case py_float g of
             None \<Rightarrow> Inl (ValueError (''could not convert string to float: '' @ quoted g))
           | Some score \<Rightarrow> Inr (normalize_score text score)))"
  by (induction ps) (auto split: option.splits)

lemma py_float_nonneg: "py_float g = Some x \<Longrightarrow> 0 \<le> x"
  by (auto simp: py_float_def Let_def split: list.splits if_splits)

text \<open>
  C7, as stated, does not hold. A score above 100 leaves the unit interval, the text
  \<^verbatim>\<open>50/100\<close> is divided by 10 and not by 100 (it contains \<^verbatim>\<open>/10\<close>, which is tested first),
  and a captured group that is no number makes \<^verbatim>\<open>float\<close> raise.
\<close>

theorem extract_score_range_counterexample:
  "extract_score ''score: 150'' = Inr (3 / 2)
   \<and> extract_score ''50/100'' = Inr 5
   \<and> extract_score ''score: .'' = Inl (ValueError (''could not convert string to float: '' @ quoted ''.''))"
  by code_simp

text \<open>
  C7, amended. When no numeric pattern matches, the result is the keyword score: 0.75 when
  more positive than negative keywords occur, 0.35 when more negative ones occur, 0.55
  otherwise. When a pattern matches, its group parses as the number \<open>x\<close> and the text has no
  \<^verbatim>\<open>/100\<close>, the result is \<open>x / 10\<close> if the text contains \<^verbatim>\<open>/10\<close>, else \<open>x\<close> for \<open>x \<le> 1\<close>,
  \<open>x / 10\<close> for \<open>x \<le> 10\<close> and \<open>x / 100\<close> beyond; it lies in the unit interval when
  \<open>x \<le> 10\<close>, or when \<open>x \<le> 100\<close> and the text has no \<^verbatim>\<open>/10\<close>.
\<close>

theorem extract_score_normalized:
  "(first_group patterns (lower text) = None \<longrightarrow>
      extract_score text = Inr (keyword_score text)
      \<and> keyword_score text =
          (if count_in positive_keywords (lower text) > count_in negative_keywords (lower text)
           then 75 / 100
           else if count_in negative_keywords (lower text) > count_in positive_keywords (lower text)
           then 35 / 100 else 55 / 100))
   \<and> (\<forall>g x. first_group patterns (lower text) = Some g \<and> py_float g = Some x
              \<and> \<not> contains ''/100'' (lower text) \<longrightarrow>
         extract_score text =
           Inr (if contains ''/10'' (lower text) then x / 10
                else if x \<le> 1 then x else if x \<le> 10 then x / 10 else x / 100)
         \<and> (x \<le> 10 \<or> (x \<le> 100 \<and> \<not> contains ''/10'' (lower text)) \<longrightarrow>
              (\<exists>y. extract_score text = Inr y \<and> 0 \<le> y \<and> y \<le> 1)))"
proof (intro conjI impI allI)
  assume "first_group patterns (lower text) = None"
  then show "extract_score text = Inr (keyword_score text)"
    by (simp add: extract_score_def scan_patterns_first_group)
next
  show "keyword_score text =
          (if count_in positive_keywords (lower text) > count_in negative_keywords (lower text)
           then 75 / 100
           else if count_in negative_keywords (lower text) > count_in positive_keywords (lower text)
           then 35 / 100 else 55 / 100)"
    by (simp add: keyword_score_def Let_def)
next
  fix g x
  assume h: "first_group patterns (lower text) = Some g \<and> py_float g = Some x
              \<and> \<not> contains ''/100'' (lower text)"
  then show e: "extract_score text =
           Inr (if contains ''/10'' (lower text) then x / 10
                else if x \<le> 1 then x else if x \<le> 10 then x / 10 else x / 100)"
    by (simp add: extract_score_def scan_patterns_first_group normalize_score_def)
  assume b: "x \<le> 10 \<or> (x \<le> 100 \<and> \<not> contains ''/10'' (lower text))"
  have "0 \<le> x" using h py_float_nonneg by blast
  then show "\<exists>y. extract_score text = Inr y \<and> 0 \<le> y \<and> y \<le> 1"
    using e b by auto
qed

theorem extract_score_normalized_witness:
  "first_group patterns (lower ''Mostly accurate, good'') = None
   \<and> extract_score ''Mostly accurate, good'' = Inr (75 / 100)
   \<and> first_group patterns (lower ''Score: 8.5'') = Some ''8.5''
   \<and> py_float ''8.5'' = Some (85 / 10)
   \<and> \<not> contains ''/100'' (lower ''Score: 8.5'')
   \<and> extract_score ''Score: 8.5'' = Inr (85 / 100)"
proof -
  have a: "first_group patterns (lower ''Mostly accurate, good'') = None"
    by code_simp
  have k: "count_in positive_keywords (lower ''Mostly accurate, good'') = 2"
    "count_in negative_keywords (lower ''Mostly accurate, good'') = 0"
    by code_simp+
  have b: "first_group patterns (lower ''Score: 8.5'') = Some ''8.5''"
    "py_float ''8.5'' = Some (85 / 10)"
    "\<not> contains ''/100'' (lower ''Score: 8.5'')" "\<not> contains ''/10'' (lower ''Score: 8.5'')"
    by code_simp+
  have "extract_score ''Mostly accurate, good'' = Inr (75 / 100)"
    using extract_score_normalized [of "''Mostly accurate, good''"] a k by simp
  moreover have "extract_score ''Score: 8.5'' =
      Inr (if contains ''/10'' (lower ''Score: 8.5'') then (85 / 10) / 10
           else if (85 / 10 :: real) \<le> 1 then 85 / 10
           else if (85 / 10 :: real) \<le> 10 then (85 / 10) / 10 else (85 / 10) / 100)"
    using extract_score_normalized [of "''Score: 8.5''"] b(1,2,3) by blast
  then have "extract_score ''Score: 8.5'' = Inr (85 / 100)"
    using b(4) by simp
  ultimately show ?thesis using a b by simp
qed

section \<open>The reasoning evaluator\<close>

lemma reasoning_mock_evaluation_form:
  "\<exists>x fb. reasoning_mock_evaluation test_case model_response = score_line x fb
          \<and> x \<in> {5, 6, 7, 8, 9, 10} \<and> CHR ''/'' \<notin> set fb"
proof -
  define sc where "sc = count_in structure_indicators (lower model_response)"
  define lc where "lc = count_in logical_words (lower model_response)"
  define s1 :: "real \<times> string" where
    "s1 = (if sc \<ge> 3 then (5 + 2, ''Well-structured reasoning with clear step-by-step analysis.'')
           else if sc \<ge> 1 then (5 + 1, ''Some structure present in the reasoning process.'')
           else (5, ''Reasoning could benefit from more structured approach.''))"
  define s2 :: "real \<times> string" where
    "s2 = (if lc \<ge> 5 then (fst s1 + 2, snd s1 @ '' Strong use of logical connectives and formal reasoning.'')
           else if lc \<ge> 2 then (fst s1 + 1, snd s1 @ '' Adequate use of logical language.'')
           else (fst s1, snd s1))"
  define s3 :: "real \<times> string" where
    "s3 = (if length (lower model_response) > 200
           then (fst s2 + 1, snd s2 @ '' Comprehensive explanation provided.'')
           else (fst s2, snd s2))"
  have eq: "reasoning_mock_evaluation test_case model_response = score_line (min (fst s3) 10) (snd s3)"
    unfolding reasoning_mock_evaluation_def s3_def s2_def s1_def sc_def lc_def
    by (simp add: Let_def case_prod_beta split del: if_split)
  have p1: "fst s1 \<in> {5, 6, 7}" "CHR ''/'' \<notin> set (snd s1)"
    by (simp_all add: s1_def)
  have p2: "fst s2 \<in> {5, 6, 7, 8, 9}" "CHR ''/'' \<notin> set (snd s2)"
    using p1 by (auto simp: s2_def)
  have p3: "fst s3 \<in> {5, 6, 7, 8, 9, 10}" "CHR ''/'' \<notin> set (snd s3)"
    using p2 by (auto simp: s3_def)
  have "min (fst s3) 10 = fst s3" using p3(1) by auto
  then show ?thesis using eq p3 by metis
qed

text \<open>
  C10. For every test case and every model output, the empty one included, the reasoning
  evaluator returns a score between 0.5 and 1.0: the heuristic starts from 5.0, only
  adds, is capped at 10.0, and the score line it writes is read back and divided by 10.
\<close>

theorem reasoning_score_range:
  "\<exists>ev. evaluate_response ReasoningEvaluator test_case model_response = Inr ev
        \<and> 1 / 2 \<le> ev_score ev \<and> ev_score ev \<le> 1"
proof -
  from reasoning_mock_evaluation_form [of test_case model_response]
  obtain x fb where rme: "reasoning_mock_evaluation test_case model_response = score_line x fb"
    and x: "x \<in> {5, 6, 7, 8, 9, 10}" and fb: "CHR ''/'' \<notin> set fb"
    by blast
  have "extract_score (score_line x fb) = Inr (x / 10)"
    using extract_score_line [OF x fb] .
  moreover have "1 / 2 \<le> x / 10" "x / 10 \<le> 1" using x by auto
  ultimately show ?thesis
    using rme by (simp add: evaluate_response_def mock_evaluation_def)
qed


section \<open>Session, pairs and loops\<close>

lemma evaluate_single_case_outcome:
  "evaluate_single_case env rid m t s =
     (case pair_outcome env rid m t of
        Inl e \<Rightarrow> (Inl e, s)
      | Inr r \<Rightarrow> (Inr r, db_commit (db_add_result r s)))"
  by (simp add: evaluate_single_case_def pair_outcome_def Let_def
      split: sum.splits option.splits)

lemma db_commit_fields [simp]:
  "evaluation_results (db (db_commit s)) = stored_results s"
  "new_results (db_commit s) = []"
  "new_metrics (db_commit s) = []"
  "metrics_rows (db (db_commit s)) = metrics_rows (db s) @ new_metrics s"
  "llm_models (db (db_commit s)) = llm_models (db s)"
  "test_cases (db (db_commit s)) = test_cases (db s)"
  "evaluation_runs (db (db_commit s)) = evaluation_runs (db s)"
  by (simp_all add: db_commit_def stored_results_def)

lemma db_add_result_fields [simp]:
  "db (db_add_result r s) = db s"
  "new_results (db_add_result r s) = new_results s @ [r]"
  "new_metrics (db_add_result r s) = new_metrics s"
  by (simp_all add: db_add_result_def)

lemma db_add_metric_fields [simp]:
  "db (db_add_metric m s) = db s"
  "new_results (db_add_metric m s) = new_results s"
  "new_metrics (db_add_metric m s) = new_metrics s @ [m]"
  by (simp_all add: db_add_metric_def)

lemma stored_results_simps [simp]:
  "stored_results (db_commit s) = stored_results s"
  "stored_results (db_add_result r s) = stored_results s @ [r]"
  "stored_results (db_add_metric m s) = stored_results s"
  by (simp_all add: stored_results_def)

lemma attempt_effect:
  assumes "new_metrics s = []"
  shows "\<exists>s'. attempt env rid m t (s, acc) = (s', acc @ [pair_row (env (m_id m) (tc_id t)) rid m t])
           \<and> stored_results s' = stored_results s @ [pair_row (env (m_id m) (tc_id t)) rid m t]
           \<and> new_metrics s' = []
           \<and> metrics_rows (db s') = metrics_rows (db s)
           \<and> llm_models (db s') = llm_models (db s)
           \<and> test_cases (db s') = test_cases (db s)
           \<and> evaluation_runs (db s') = evaluation_runs (db s)"
  using assms
  by (cases "pair_outcome (env (m_id m) (tc_id t)) rid m t")
     (simp_all add: attempt_def evaluate_single_case_outcome pair_row_def Let_def)

lemma cases_loop_effect:
  assumes "new_metrics s = []"
  shows "\<exists>s'. fold (attempt env rid m) tcs (s, acc)
               = (s', acc @ map (\<lambda>t. pair_row (env (m_id m) (tc_id t)) rid m t) tcs)
           \<and> stored_results s' = stored_results s @ map (\<lambda>t. pair_row (env (m_id m) (tc_id t)) rid m t) tcs
           \<and> new_metrics s' = []
           \<and> metrics_rows (db s') = metrics_rows (db s)
           \<and> llm_models (db s') = llm_models (db s)
           \<and> test_cases (db s') = test_cases (db s)
           \<and> evaluation_runs (db s') = evaluation_runs (db s)"
  using assms
proof (induction tcs arbitrary: s acc)
  case Nil
  then show ?case by simp
next
  case (Cons t tcs)
  from attempt_effect [OF Cons.prems, of env rid m t acc]
  obtain s1 where s1: "attempt env rid m t (s, acc) = (s1, acc @ [pair_row (env (m_id m) (tc_id t)) rid m t])"
    "stored_results s1 = stored_results s @ [pair_row (env (m_id m) (tc_id t)) rid m t]"
    "new_metrics s1 = []" "metrics_rows (db s1) = metrics_rows (db s)"
    "llm_models (db s1) = llm_models (db s)" "test_cases (db s1) = test_cases (db s)"
    "evaluation_runs (db s1) = evaluation_runs (db s)"
    by blast
  from Cons.IH [OF s1(3), of "acc @ [pair_row (env (m_id m) (tc_id t)) rid m t]"]
  show ?case using s1 by auto
qed

lemma models_loop_effect:
  assumes "new_metrics s = []"
  shows "\<exists>s'. fold (\<lambda>model. fold (attempt env rid model) tcs) models (s, acc)
               = (s', acc @ run_rows env rid models tcs)
           \<and> stored_results s' = stored_results s @ run_rows env rid models tcs
           \<and> new_metrics s' = []
           \<and> metrics_rows (db s') = metrics_rows (db s)
           \<and> llm_models (db s') = llm_models (db s)
           \<and> test_cases (db s') = test_cases (db s)
           \<and> evaluation_runs (db s') = evaluation_runs (db s)"
  using assms
proof (induction models arbitrary: s acc)
  case Nil
  then show ?case by (simp add: run_rows_def)
next
  case (Cons m models)
  from cases_loop_effect [OF Cons.prems, of env rid m tcs acc]
  obtain s1 where s1: "fold (attempt env rid m) tcs (s, acc)
               = (s1, acc @ map (\<lambda>t. pair_row (env (m_id m) (tc_id t)) rid m t) tcs)"
    "stored_results s1 = stored_results s @ map (\<lambda>t. pair_row (env (m_id m) (tc_id t)) rid m t) tcs"
    "new_metrics s1 = []" "metrics_rows (db s1) = metrics_rows (db s)"
    "llm_models (db s1) = llm_models (db s)" "test_cases (db s1) = test_cases (db s)"
    "evaluation_runs (db s1) = evaluation_runs (db s)"
    by blast
  have split: "run_rows env rid (m # models) tcs
        = map (\<lambda>t. pair_row (env (m_id m) (tc_id t)) rid m t) tcs @ run_rows env rid models tcs"
    by (simp add: run_rows_def comp_def)
  from Cons.IH [OF s1(3), of "acc @ map (\<lambda>t. pair_row (env (m_id m) (tc_id t)) rid m t) tcs"]
  show ?case using s1 split by auto
qed

lemma fold_max_ge: "(a::int) \<le> fold max xs a"
proof (induction xs arbitrary: a)
  case Nil
  show ?case by simp
next
  case (Cons x xs)
  have "a \<le> max x a" by simp
  also have "max x a \<le> fold max xs (max x a)" by (rule Cons.IH)
  finally show ?case by simp
qed

lemma fold_max_mem: "x \<in> set xs \<Longrightarrow> (x::int) \<le> fold max xs a"
proof (induction xs arbitrary: a)
  case Nil
  then show ?case by simp
next
  case (Cons y ys)
  show ?case
  proof (cases "x = y")
    case True
    have "x \<le> max y a" using True by simp
    also have "max y a \<le> fold max ys (max y a)" by (rule fold_max_ge)
    finally show ?thesis by simp
  next
    case False
    then have "x \<in> set ys" using Cons.prems by simp
    then show ?thesis using Cons.IH by simp
  qed
qed

lemma next_run_id_fresh: "r \<in> set (evaluation_runs d) \<Longrightarrow> run_id r < next_run_id d"
proof -
  assume "r \<in> set (evaluation_runs d)"
  then have "run_id r \<in> set (map run_id (evaluation_runs d))" by simp
  then have "run_id r \<le> fold max (map run_id (evaluation_runs d)) 0" by (rule fold_max_mem)
  then show ?thesis by (simp add: next_run_id_def)
qed

lemma db_insert_run_local:
  "evaluation_runs (db (db_insert_run r (session_local d))) = evaluation_runs d @ [r]"
  "stored_results (db_insert_run r (session_local d)) = evaluation_results d"
  "new_metrics (db_insert_run r (session_local d)) = []"
  "metrics_rows (db (db_insert_run r (session_local d))) = metrics_rows d"
  "llm_models (db (db_insert_run r (session_local d))) = llm_models d"
  "test_cases (db (db_insert_run r (session_local d))) = test_cases d"
  by (simp_all add: db_insert_run_def session_local_def stored_results_def db_commit_def)

lemma set_run_status_fields:
  "evaluation_results (db (set_run_status rid st s)) = stored_results s"
  "metrics_rows (db (set_run_status rid st s)) = metrics_rows (db s) @ new_metrics s"
  "llm_models (db (set_run_status rid st s)) = llm_models (db s)"
  "test_cases (db (set_run_status rid st s)) = test_cases (db s)"
  "evaluation_runs (db (set_run_status rid st s)) =
     map (\<lambda>r. if run_id r = rid then r\<lparr>run_status := st\<rparr> else r) (evaluation_runs (db s))"
  by (simp_all add: set_run_status_def stored_results_def db_commit_def)

lemma query_models_db: "llm_models (db s) = llm_models (db s') \<Longrightarrow> query_models ids s = query_models ids s'"
  by (simp add: query_models_def)

lemma query_test_cases_db:
  "test_cases (db s) = test_cases (db s') \<Longrightarrow> query_test_cases ids cs s = query_test_cases ids cs s'"
  by (simp add: query_test_cases_def)

lemma fold_category_metrics:
  "db (fold (\<lambda>(key, stats). db_add_metric (g key stats)) tab s) = db s
   \<and> new_results (fold (\<lambda>(key, stats). db_add_metric (g key stats)) tab s) = new_results s
   \<and> new_metrics (fold (\<lambda>(key, stats). db_add_metric (g key stats)) tab s)
       = new_metrics s @ map (\<lambda>(key, stats). g key stats) tab"
  by (induction tab arbitrary: s) auto

lemma fold_overall_metrics:
  "db (fold (\<lambda>model s. case g model of None \<Rightarrow> s | Some metric \<Rightarrow> db_add_metric metric s) models s) = db s
   \<and> new_results (fold (\<lambda>model s. case g model of None \<Rightarrow> s | Some metric \<Rightarrow> db_add_metric metric s) models s)
       = new_results s
   \<and> new_metrics (fold (\<lambda>model s. case g model of None \<Rightarrow> s | Some metric \<Rightarrow> db_add_metric metric s) models s)
       = new_metrics s @ List.map_filter g models"
  by (induction models arbitrary: s) (auto simp: List.map_filter_simps split: option.splits)

lemma calculate_rankings_fields:
  "new_results (calculate_rankings rid s) = new_results s"
  "new_metrics (calculate_rankings rid s) = new_metrics s"
  "evaluation_results (db (calculate_rankings rid s)) = evaluation_results (db s)"
  "evaluation_runs (db (calculate_rankings rid s)) = evaluation_runs (db s)"
  "llm_models (db (calculate_rankings rid s)) = llm_models (db s)"
  "test_cases (db (calculate_rankings rid s)) = test_cases (db s)"
  by (simp_all add: calculate_rankings_def Let_def)

lemma generate_performance_metrics_results:
  assumes "generate_performance_metrics rid models s = Inr s'"
  shows "evaluation_results (db s') = stored_results s
       \<and> evaluation_runs (db s') = evaluation_runs (db s)
       \<and> new_results s' = []"
proof -
  obtain tab where tab: "group_results s (query_results rid s) [] = Inr tab"
    using assms by (auto simp: generate_performance_metrics_def Let_def split: sum.splits)
  define s1 where "s1 = fold (\<lambda>(key, stats). db_add_metric (category_metric rid key stats)) tab s"
  define s2 where "s2 = fold (\<lambda>model acc.
       case overall_metric rid model (query_results rid s) of None \<Rightarrow> acc
       | Some metric \<Rightarrow> db_add_metric metric acc) models s1"
  have s': "s' = db_commit (calculate_rankings rid s2)"
    using assms tab by (auto simp: generate_performance_metrics_def Let_def s1_def s2_def)
  have 1: "db s1 = db s" "new_results s1 = new_results s"
    using fold_category_metrics [of "category_metric rid" tab s] by (simp_all add: s1_def)
  have 2: "db s2 = db s1" "new_results s2 = new_results s1"
    using fold_overall_metrics [of "\<lambda>model. overall_metric rid model (query_results rid s)" models s1]
    by (simp_all add: s2_def)
  show ?thesis
    using 1 2 by (simp add: s' stored_results_def db_commit_def calculate_rankings_fields)
qed

lemma query_after_insert:
  "query_models ids (db_insert_run r (session_local d)) = query_models ids (session_local d)"
  "query_test_cases tids cs (db_insert_run r (session_local d)) = query_test_cases tids cs (session_local d)"
  by (simp_all add: query_models_def query_test_cases_def db_insert_run_def session_local_def db_commit_def)

lemma run_evaluation_results:
  assumes m: "query_models model_ids (session_local d) \<noteq> []"
    and t: "query_test_cases test_case_ids categories (session_local d) \<noteq> []"
  shows "evaluation_results (snd (run_evaluation env d name model_ids test_case_ids categories))
         = evaluation_results d
           @ run_rows env (next_run_id d) (query_models model_ids (session_local d))
               (query_test_cases test_case_ids categories (session_local d))"
proof -
  define eval_run where "eval_run =
      \<lparr>run_id = next_run_id d, run_name = name,
       run_description = ''Evaluation of '' @ nat_digits (length model_ids) @ '' models'',
       run_status = ''running''\<rparr>"
  define s1 where "s1 = db_insert_run eval_run (session_local d)"
  define models where "models = query_models model_ids (session_local d)"
  define tcs where "tcs = query_test_cases test_case_ids categories (session_local d)"
  define rid where "rid = next_run_id d"
  have rid: "run_id eval_run = rid" by (simp add: eval_run_def rid_def)
  have nm: "new_metrics s1 = []" and st: "stored_results s1 = evaluation_results d"
    by (simp_all add: s1_def db_insert_run_local)
  from models_loop_effect [OF nm, of env rid tcs models "[]"]
  obtain s2 where s2: "fold (\<lambda>model. fold (attempt env rid model) tcs) models (s1, [])
               = (s2, run_rows env rid models tcs)"
    "stored_results s2 = evaluation_results d @ run_rows env rid models tcs"
    using st by auto
  show ?thesis
  proof (cases "generate_performance_metrics rid models s2")
    case (Inl e)
    have "run_evaluation env d name model_ids test_case_ids categories = run_failed rid e s2"
      using m t s2(1) Inl
      unfolding run_evaluation_def Let_def query_after_insert
      by (simp add: models_def tcs_def rid_def s1_def eval_run_def)
    then show ?thesis
      using s2(2)
      by (simp add: run_failed_def session_close_def set_run_status_fields models_def tcs_def rid_def)
  next
    case (Inr s3)
    have "snd (run_evaluation env d name model_ids test_case_ids categories)
          = session_close (set_run_status rid ''completed'' s3)"
      using m t s2(1) Inr
      unfolding run_evaluation_def Let_def query_after_insert
      by (simp add: models_def tcs_def rid_def s1_def eval_run_def)
    moreover from generate_performance_metrics_results [OF Inr]
    have "evaluation_results (db s3) = stored_results s2" "new_results s3 = []" by simp_all
    then have "stored_results s3 = stored_results s2" by (simp add: stored_results_def)
    ultimately show ?thesis
      using s2(2)
      by (simp add: session_close_def set_run_status_fields models_def tcs_def rid_def)
  qed
qed

lemma generate_completion_facts:
  "(lr_error (generate_completion env p prompt) = None \<longrightarrow>
      lr_cost_usd (generate_completion env p prompt)
        = calculate_cost p (lr_tokens_used (generate_completion env p prompt)))
   \<and> (lr_error (generate_completion env p prompt) \<noteq> None \<longrightarrow>
        lr_tokens_used (generate_completion env p prompt) = 0
        \<and> lr_cost_usd (generate_completion env p prompt) = 0
        \<and> lr_content (generate_completion env p prompt) = [])"
  by (cases "p_class p"; cases "env_api_reply env")
     (auto simp: generate_completion_def create_response_def create_mock_response_def
        falsy_def api_error_prefix_def Let_def)

lemma pair_outcome_Inr:
  assumes "pair_outcome env rid m t = Inr r"
  shows "er_run_id r = rid \<and> er_model_id r = m_id m \<and> er_test_case_id r = tc_id t
       \<and> (er_error_message r = None \<longrightarrow>
            er_cost_usd r = real_of_int (er_tokens_used r) / 1000 * m_cost_per_1k_tokens m)
       \<and> (er_error_message r \<noteq> None \<longrightarrow>
            er_tokens_used r = 0 \<and> er_cost_usd r = 0 \<and> er_model_output r = [])"
proof -
  define cfg where "cfg =
     \<lparr>cfg_name = Some (m_name m), cfg_provider = Some (m_provider m),
      cfg_model_id = Some (m_model_id m),
      cfg_cost_per_1k_tokens = Some (m_cost_per_1k_tokens m),
      cfg_max_tokens = Some (m_max_tokens m)\<rparr>"
  obtain p where p: "create_provider providers cfg = Inr p"
    using assms
    by (auto simp: pair_outcome_def evaluate_single_case_def Let_def cfg_def split: sum.splits)
  have cost: "p_cost_per_1k_tokens p = m_cost_per_1k_tokens m"
    using p by (auto simp: create_provider_def provider_init_def cfg_get_def cfg_def Let_def
        split: option.splits)
  define resp where "resp = generate_completion env p (tc_input_text t)"
  have r: "er_run_id r = rid" "er_model_id r = m_id m" "er_test_case_id r = tc_id t"
    "er_model_output r = lr_content resp" "er_tokens_used r = lr_tokens_used resp"
    "er_cost_usd r = lr_cost_usd resp" "er_error_message r = lr_error resp"
    using assms p
    by (auto simp: pair_outcome_def evaluate_single_case_def Let_def cfg_def resp_def
        split: sum.splits option.splits)
  show ?thesis
    using r generate_completion_facts [of env p "tc_input_text t"] cost
    by (simp add: resp_def calculate_cost_def)
qed




lemma pair_row_keys:
  "er_run_id (pair_row env rid m t) = rid"
  "er_model_id (pair_row env rid m t) = m_id m"
  "er_test_case_id (pair_row env rid m t) = tc_id t"
  using pair_outcome_Inr [of env rid m t]
  by (cases "pair_outcome env rid m t"; simp add: pair_row_def error_result_def)+

lemma run_rows_nth:
  "i < length (List.product models tcs) \<Longrightarrow>
   run_rows env rid models tcs ! i =
     (case List.product models tcs ! i of (m, t) \<Rightarrow> pair_row (env (m_id m) (tc_id t)) rid m t)"
  by (simp add: run_rows_def)


section \<open>Runs: one row per pair\<close>


text \<open>
  C8. In the rows a run leaves, every row without error message has
  \<open>cost_usd = tokens_used / 1000 * cost_per_1k_tokens\<close> of its model.
\<close>

theorem successful_pair_cost:
  fixes env d name model_ids test_case_ids categories
  defines "after \<equiv> snd (run_evaluation env d name model_ids test_case_ids categories)"
    and "models \<equiv> query_models model_ids (session_local d)"
    and "tcs \<equiv> query_test_cases test_case_ids categories (session_local d)"
  assumes "models \<noteq> []" and "tcs \<noteq> []"
  shows "\<exists>rows. evaluation_results after = evaluation_results d @ rows
     \<and> length rows = length (List.product models tcs)
     \<and> (\<forall>i < length rows. case List.product models tcs ! i of (m, t) \<Rightarrow>
           er_model_id (rows ! i) = m_id m \<and> er_test_case_id (rows ! i) = tc_id t
         \<and> (er_error_message (rows ! i) = None \<longrightarrow>
              er_cost_usd (rows ! i)
                = real_of_int (er_tokens_used (rows ! i)) / 1000 * m_cost_per_1k_tokens m))"
proof (intro exI conjI allI impI)
  show "evaluation_results after
        = evaluation_results d @ run_rows env (next_run_id d) models tcs"
    using assms(4,5) run_evaluation_results [of model_ids d test_case_ids categories env name]
    by (simp add: after_def models_def tcs_def)
next
  show "length (run_rows env (next_run_id d) models tcs) = length (List.product models tcs)"
    by (simp add: run_rows_def)
next
  fix i
  assume "i < length (run_rows env (next_run_id d) models tcs)"
  then have i: "i < length (List.product models tcs)" by (simp add: run_rows_def)
  obtain m t where mt: "List.product models tcs ! i = (m, t)" by (cases "List.product models tcs ! i")
  have row: "run_rows env (next_run_id d) models tcs ! i
             = pair_row (env (m_id m) (tc_id t)) (next_run_id d) m t"
    using run_rows_nth [OF i, of env "next_run_id d"] mt by simp
  have "er_error_message (pair_row (env (m_id m) (tc_id t)) (next_run_id d) m t) = None \<longrightarrow>
        er_cost_usd (pair_row (env (m_id m) (tc_id t)) (next_run_id d) m t)
        = real_of_int (er_tokens_used (pair_row (env (m_id m) (tc_id t)) (next_run_id d) m t)) / 1000
          * m_cost_per_1k_tokens m"
    using pair_outcome_Inr [of "env (m_id m) (tc_id t)" "next_run_id d" m t]
    by (cases "pair_outcome (env (m_id m) (tc_id t)) (next_run_id d) m t")
       (simp_all add: pair_row_def error_result_def)
  then show "case List.product models tcs ! i of (m, t) \<Rightarrow>
           er_model_id (run_rows env (next_run_id d) models tcs ! i) = m_id m
         \<and> er_test_case_id (run_rows env (next_run_id d) models tcs ! i) = tc_id t
         \<and> (er_error_message (run_rows env (next_run_id d) models tcs ! i) = None \<longrightarrow>
              er_cost_usd (run_rows env (next_run_id d) models tcs ! i)
                = real_of_int (er_tokens_used (run_rows env (next_run_id d) models tcs ! i)) / 1000
                  * m_cost_per_1k_tokens m)"
    by (simp add: mt row pair_row_keys)
qed


lemma demo_selection:
  "query_models [1, 2] (session_local demo_db) = [m_mock, m_openai]"
  "query_test_cases None None (session_local demo_db) = [t_reasoning, t_translation]"
  "next_run_id demo_db = 1"
  "evaluation_results demo_db = []"
  by code_simp+

lemma demo_outcomes:
  "pair_outcome (demo_env 1 2) 1 m_mock t_translation
     = Inl (ValueError ''No evaluator found for category: translation'')"
  "evaluators (tc_category t_translation) = None"
  "m_id m_mock = 1" "tc_id t_translation = 2" "m_cost_per_1k_tokens m_mock = 1 / 100"
  "m_id m_openai = 2" "tc_id t_reasoning = 1"
  by code_simp+



theorem successful_pair_cost_witness:
  "query_models [1, 2] (session_local demo_db) \<noteq> []
   \<and> query_test_cases None None (session_local demo_db) \<noteq> []
   \<and> er_error_message (evaluation_results (snd demo_run) ! 0) = None
   \<and> er_cost_usd (evaluation_results (snd demo_run) ! 0)
       = real_of_int (er_tokens_used (evaluation_results (snd demo_run) ! 0)) / 1000 * (1 / 100)"
proof -
  have m: "query_models [1, 2] (session_local demo_db) \<noteq> []"
    and t: "query_test_cases None None (session_local demo_db) \<noteq> []"
    by (simp_all add: demo_selection)
  have none: "er_error_message (evaluation_results (snd demo_run) ! 0) = None"
    by code_simp
  from successful_pair_cost [OF m t, of demo_env "''demo''"]
  obtain rows where rows: "evaluation_results (snd demo_run) = rows"
    and len: "length rows = length (List.product [m_mock, m_openai] [t_reasoning, t_translation])"
    and each: "\<forall>i < length rows.
         case List.product [m_mock, m_openai] [t_reasoning, t_translation] ! i of (m, t) \<Rightarrow>
           er_model_id (rows ! i) = m_id m \<and> er_test_case_id (rows ! i) = tc_id t
         \<and> (er_error_message (rows ! i) = None \<longrightarrow>
              er_cost_usd (rows ! i)
                = real_of_int (er_tokens_used (rows ! i)) / 1000 * m_cost_per_1k_tokens m)"
    unfolding demo_run_def demo_selection by auto
  have "0 < length rows" using len by simp
  with each have "case List.product [m_mock, m_openai] [t_reasoning, t_translation] ! 0 of (m, t) \<Rightarrow>
         (er_error_message (rows ! 0) = None \<longrightarrow>
              er_cost_usd (rows ! 0)
                = real_of_int (er_tokens_used (rows ! 0)) / 1000 * m_cost_per_1k_tokens m)"
    by fastforce
  then have "er_cost_usd (rows ! 0) = real_of_int (er_tokens_used (rows ! 0)) / 1000 * (1 / 100)"
    using none rows by (simp add: demo_outcomes)
  then show ?thesis using m t none rows by simp
qed

section \<open>Runs that select nothing\<close>

lemma db_commit_clean: "new_results s = [] \<Longrightarrow> new_metrics s = [] \<Longrightarrow> db (db_commit s) = db s"
  by (simp add: db_commit_def)

lemma set_failed_new_run:
  assumes "\<forall>r \<in> set runs. run_id r \<noteq> rid"
  shows "map (\<lambda>r. if run_id r = rid then r\<lparr>run_status := st\<rparr> else r)
           (runs @ [\<lparr>run_id = rid, run_name = n, run_description = desc, run_status = st0\<rparr>])
         = runs @ [\<lparr>run_id = rid, run_name = n, run_description = desc, run_status = st\<rparr>]"
  using assms by (simp add: map_idI)

text \<open>
  C2, amended. When the requested model ids resolve to no active model, or no test case
  is selected, \<^verbatim>\<open>run_evaluation\<close> fails with a \<^verbatim>\<open>ValueError\<close> after it has created the
  run row: the row stays in the table with status \<^verbatim>\<open>failed\<close>, and no result row and no
  metrics row is written.
\<close>

theorem run_evaluation_empty_selection:
  assumes "query_models model_ids (session_local d) = []
           \<or> query_test_cases test_case_ids categories (session_local d) = []"
  shows "(\<exists>msg. fst (run_evaluation env d name model_ids test_case_ids categories)
                 = Inl (ValueError msg))
       \<and> evaluation_runs (snd (run_evaluation env d name model_ids test_case_ids categories))
           = evaluation_runs d
             @ [\<lparr>run_id = next_run_id d, run_name = name,
                 run_description = ''Evaluation of '' @ nat_digits (length model_ids) @ '' models'',
                 run_status = ''failed''\<rparr>]
       \<and> evaluation_results (snd (run_evaluation env d name model_ids test_case_ids categories))
           = evaluation_results d
       \<and> metrics_rows (snd (run_evaluation env d name model_ids test_case_ids categories))
           = metrics_rows d"
proof -
  define eval_run where "eval_run =
      \<lparr>run_id = next_run_id d, run_name = name,
       run_description = ''Evaluation of '' @ nat_digits (length model_ids) @ '' models'',
       run_status = ''running''\<rparr>"
  define s1 where "s1 = db_insert_run eval_run (session_local d)"
  have "\<exists>msg. run_evaluation env d name model_ids test_case_ids categories
        = run_failed (next_run_id d) (ValueError msg) s1"
  proof (cases "query_models model_ids (session_local d) = []")
    case True
    have "run_evaluation env d name model_ids test_case_ids categories
        = run_failed (next_run_id d) (ValueError ''No active models found for evaluation'') s1"
      using True unfolding run_evaluation_def Let_def query_after_insert
      by (simp add: s1_def eval_run_def)
    then show ?thesis by blast
  next
    case False
    then have "query_test_cases test_case_ids categories (session_local d) = []"
      using assms by simp
    then have "run_evaluation env d name model_ids test_case_ids categories
        = run_failed (next_run_id d) (ValueError ''No test cases found for evaluation'') s1"
      using False unfolding run_evaluation_def Let_def query_after_insert
      by (simp add: s1_def eval_run_def)
    then show ?thesis by blast
  qed
  then obtain msg where run: "run_evaluation env d name model_ids test_case_ids categories
        = run_failed (next_run_id d) (ValueError msg) s1"
    by blast
  have fresh: "\<forall>r \<in> set (evaluation_runs d). run_id r \<noteq> next_run_id d"
    using next_run_id_fresh by fastforce
  have s1: "evaluation_runs (db s1) = evaluation_runs d @ [eval_run]"
    "stored_results s1 = evaluation_results d" "new_metrics s1 = []"
    "metrics_rows (db s1) = metrics_rows d"
    by (simp_all add: s1_def db_insert_run_local)
  have "evaluation_runs (snd (run_evaluation env d name model_ids test_case_ids categories))
        = map (\<lambda>r. if run_id r = next_run_id d then r\<lparr>run_status := ''failed''\<rparr> else r)
            (evaluation_runs d @ [eval_run])"
    using run s1 by (simp add: run_failed_def session_close_def set_run_status_fields)
  also have "\<dots> = evaluation_runs d
             @ [\<lparr>run_id = next_run_id d, run_name = name,
                 run_description = ''Evaluation of '' @ nat_digits (length model_ids) @ '' models'',
                 run_status = ''failed''\<rparr>]"
    unfolding eval_run_def by (rule set_failed_new_run [OF fresh])
  finally have runs: "evaluation_runs (snd (run_evaluation env d name model_ids test_case_ids categories))
        = evaluation_runs d
             @ [\<lparr>run_id = next_run_id d, run_name = name,
                 run_description = ''Evaluation of '' @ nat_digits (length model_ids) @ '' models'',
                 run_status = ''failed''\<rparr>]" .
  show ?thesis
    using run s1 runs
    by (simp add: run_failed_def session_close_def set_run_status_fields)
qed

text \<open>
  C2, as stated, does not hold: the run row is committed before the models and test
  cases are looked up. A request that selects no model, on a database without runs,
  fails and leaves a run row behind.
\<close>

theorem run_row_before_validation_counterexample:
  "evaluation_runs demo_db = []
   \<and> fst empty_run = Inl (ValueError ''No active models found for evaluation'')
   \<and> evaluation_runs (snd empty_run)
       = [\<lparr>run_id = 1, run_name = ''nothing'', run_description = ''Evaluation of 0 models'',
           run_status = ''failed''\<rparr>]"
  by code_simp

theorem run_evaluation_empty_selection_witness:
  "query_models [] (session_local demo_db) = []
   \<and> (\<exists>msg. fst empty_run = Inl (ValueError msg))
   \<and> evaluation_runs (snd empty_run)
       = [\<lparr>run_id = 1, run_name = ''nothing'', run_description = ''Evaluation of 0 models'',
           run_status = ''failed''\<rparr>]
   \<and> evaluation_results (snd empty_run) = []
   \<and> metrics_rows (snd empty_run) = []"
proof -
  have q: "query_models [] (session_local demo_db) = []" by code_simp
  have f: "next_run_id demo_db = 1" "evaluation_runs demo_db = []"
    "evaluation_results demo_db = []" "metrics_rows demo_db = []"
    "''Evaluation of '' @ nat_digits (length ([] :: int list)) @ '' models'' = ''Evaluation of 0 models''"
    by code_simp+
  show ?thesis
    using run_evaluation_empty_selection [of "[]" demo_db None None demo_env "''nothing''"] q f
    unfolding empty_run_def by simp
qed

section \<open>Aggregation\<close>

lemma falsy_iff: "falsy x \<longleftrightarrow> x = None \<or> x = Some []"
  by (cases x) (simp_all add: falsy_def)

lemma map_of_table_update:
  "map_of (table_update k f tab) k' = (if k' = k then map_option f (map_of tab k) else map_of tab k')"
  by (induction tab) auto

lemma map_fst_table_update: "map fst (table_update k f tab) = map fst tab"
  by (induction tab) auto

lemma map_of_record_result:
  "map_of (record_result key r tab) k =
     (if k = key
      then Some (count_result r (case map_of tab key of None \<Rightarrow> new_stats | Some st \<Rightarrow> st))
      else map_of tab k)"
  by (auto simp: record_result_def Let_def map_of_table_update map_add_def split: option.splits)

lemma distinct_record_result:
  "distinct (map fst tab) \<Longrightarrow> distinct (map fst (record_result key r tab))"
  by (auto simp: record_result_def Let_def map_fst_table_update map_of_eq_None_iff)

lemma fold_count_result:
  "gs_total_count (fold count_result ms st) = gs_total_count st + length ms"
  "gs_success_count (fold count_result ms st)
     = gs_success_count st + length (filter (\<lambda>r. falsy (er_error_message r)) ms)"
  "gs_scores (fold count_result ms st)
     = gs_scores st @ map er_accuracy_score (filter (\<lambda>r. falsy (er_error_message r)) ms)"
  "gs_response_times (fold count_result ms st)
     = gs_response_times st @ map er_response_time_ms (filter (\<lambda>r. falsy (er_error_message r)) ms)"
  "gs_costs (fold count_result ms st)
     = gs_costs st @ map er_cost_usd (filter (\<lambda>r. falsy (er_error_message r)) ms)"
  "gs_tokens (fold count_result ms st)
     = gs_tokens st @ map er_tokens_used (filter (\<lambda>r. falsy (er_error_message r)) ms)"
  by (induction ms arbitrary: st; simp add: count_result_def Let_def)+

lemma group_results_map_of:
  assumes "group_results s results tab = Inr tab'"
  shows "map_of tab' k =
     (case map_of tab k of
        None \<Rightarrow>
          if filter (\<lambda>r. result_key s r = Some k) results = [] then None
          else Some (fold count_result (filter (\<lambda>r. result_key s r = Some k) results) new_stats)
      | Some st \<Rightarrow> Some (fold count_result (filter (\<lambda>r. result_key s r = Some k) results) st))"
  using assms
proof (induction results arbitrary: tab)
  case Nil
  then show ?case by (auto split: option.splits)
next
  case (Cons r rs)
  from Cons.prems obtain tc where tc: "result_test_case s r = Some tc"
    and rest: "group_results s rs (record_result (er_model_id r, tc_category tc) r tab) = Inr tab'"
    by (auto split: option.splits)
  have key: "result_key s r = Some (er_model_id r, tc_category tc)"
    using tc by (simp add: result_key_def)
  show ?case
    using Cons.IH [OF rest] key
    by (auto simp: map_of_record_result split: option.splits)
qed

lemma group_results_distinct:
  assumes "group_results s results tab = Inr tab'" and "distinct (map fst tab)"
  shows "distinct (map fst tab')"
  using assms
proof (induction results arbitrary: tab)
  case Nil
  then show ?case by simp
next
  case (Cons r rs)
  from Cons.prems(1)
  have "\<exists>tc :: test_case.
          group_results s rs (record_result (er_model_id r, tc_category tc) r tab) = Inr tab'"
    by (auto split: option.splits)
  then obtain tc :: test_case where
    rest: "group_results s rs (record_result (er_model_id r, tc_category tc) r tab) = Inr tab'"
    by blast
  show ?case
    using Cons.IH [OF rest] distinct_record_result [OF Cons.prems(2)] by blast
qed

lemma group_results_group:
  assumes "group_results s results [] = Inr tab" and "(key, stats) \<in> set tab"
  shows "filter (\<lambda>r. result_key s r = Some key) results \<noteq> []
       \<and> stats = fold count_result (filter (\<lambda>r. result_key s r = Some key) results) new_stats"
proof -
  have "distinct (map fst tab)"
    using group_results_distinct [OF assms(1)] by simp
  then have "map_of tab key = Some stats"
    using assms(2) by simp
  then show ?thesis
    using group_results_map_of [OF assms(1), of key] by (auto split: if_splits)
qed

text \<open>
  The statistics of a group, over the results the aggregation has loaded. Every result
  of the key counts in \<open>total_count\<close>; the success count, the averages of score and
  latency and the sums of cost and tokens are taken over the results whose error message
  is falsy; the success rate is the success count over the total count.
\<close>

lemma group_statistics:
  fixes s results key
  defines "members \<equiv> filter (\<lambda>r. result_key s r = Some key) results"
  defines "ok \<equiv> filter (\<lambda>r. falsy (er_error_message r)) members"
  assumes "group_results s results [] = Inr tab" and "(key, stats) \<in> set tab"
  shows "members \<noteq> []
       \<and> gs_total_count stats = length members
       \<and> gs_success_count stats = length ok
       \<and> pm_avg_accuracy (category_metric rid key stats)
           = (if ok = [] then 0 else sum_list (map er_accuracy_score ok) / real (length ok))
       \<and> pm_avg_response_time (category_metric rid key stats)
           = (if ok = [] then 0 else sum_list (map er_response_time_ms ok) / real (length ok))
       \<and> pm_total_cost (category_metric rid key stats) = sum_list (map er_cost_usd ok)
       \<and> pm_total_tokens (category_metric rid key stats) = sum_list (map er_tokens_used ok)
       \<and> pm_success_rate (category_metric rid key stats)
           = real (gs_success_count stats) / real (gs_total_count stats)"
proof -
  have ok: "ok = filter (\<lambda>r. falsy (er_error_message r)) members"
    by (simp add: ok_def)
  have g: "members \<noteq> []" "stats = fold count_result members new_stats"
    using group_results_group [OF assms(3,4)] by (simp_all add: members_def)
  have f: "gs_total_count stats = length members" "gs_success_count stats = length ok"
    "gs_scores stats = map er_accuracy_score ok"
    "gs_response_times stats = map er_response_time_ms ok"
    "gs_costs stats = map er_cost_usd ok" "gs_tokens stats = map er_tokens_used ok"
    by (simp_all add: g(2) fold_count_result ok new_stats_def)
  show ?thesis
    using g(1) f by (simp add: category_metric_def Let_def)
qed

text \<open>
  C5. In the run of the mock model on both test cases, the pair (1, 2) fails and its row
  is persisted with the error message set. The aggregation does not count it: the table
  has no metrics row for the category of the failed pair, and the \<^verbatim>\<open>"overall"\<close> row of
  the model has the success rate 1 where one of two results failed. The handler of the
  pair adds the error row to the session without committing it, and the query of the
  aggregation, on a session without autoflush, does not load it. The aggregation run
  again on the stored rows counts the failure: the category gets its row with success
  rate 0 and the \<^verbatim>\<open>"overall"\<close> row has 1/2.
\<close>

theorem pending_error_row_not_counted:
  "map er_error_message (evaluation_results (snd mock_run))
     = [None, Some ''No evaluator found for category: translation'']
   \<and> map pm_category (metrics_rows (snd mock_run)) = [''reasoning'', ''overall'']
   \<and> map pm_success_rate (metrics_rows (snd mock_run)) = [1, 1]
   \<and> map pm_category (reaggregate 1 [m_mock] (snd mock_run))
       = [''reasoning'', ''translation'', ''overall'']
   \<and> map pm_success_rate (reaggregate 1 [m_mock] (snd mock_run)) = [1, 0, 1 / 2]"
  by code_simp

section \<open>The overall roll-up\<close>

lemma fold_length_inv:
  "(\<And>x ys. length (f x ys) = length ys) \<Longrightarrow> length (fold f xs ys) = length ys"
  by (induction xs arbitrary: ys) simp_all

lemma length_assign_ranks: "length (assign_ranks f idx rows) = length rows"
  unfolding assign_ranks_def by (rule fold_length_inv) (simp add: case_prod_beta)

lemma length_rank_category: "length (rank_category cat rows) = length rows"
  unfolding rank_category_def Let_def
  by (simp add: length_assign_ranks fold_length_inv)

lemma length_calculate_rankings:
  "length (metrics_rows (db (calculate_rankings rid s))) = length (metrics_rows (db s))"
  unfolding calculate_rankings_def Let_def
  by (simp add: fold_length_inv case_prod_beta length_rank_category)

lemma generate_performance_metrics_new_rows:
  assumes "generate_performance_metrics rid models s = Inr s'" and "new_metrics s = []"
  shows "\<exists>tab. group_results s (query_results rid s) [] = Inr tab
       \<and> added_metrics s s'
           = map (\<lambda>(key, stats). category_metric rid key stats) tab
             @ List.map_filter (\<lambda>m. overall_metric rid m (query_results rid s)) models"
proof -
  obtain tab where tab: "group_results s (query_results rid s) [] = Inr tab"
    using assms(1) by (auto simp: generate_performance_metrics_def Let_def split: sum.splits)
  define s1 where "s1 = fold (\<lambda>(key, stats). db_add_metric (category_metric rid key stats)) tab s"
  define s2 where "s2 = fold (\<lambda>model acc.
       case overall_metric rid model (query_results rid s) of None \<Rightarrow> acc
       | Some metric \<Rightarrow> db_add_metric metric acc) models s1"
  have s': "s' = db_commit (calculate_rankings rid s2)"
    using assms(1) tab by (auto simp: generate_performance_metrics_def Let_def s1_def s2_def)
  have 1: "db s1 = db s"
    "new_metrics s1 = map (\<lambda>(key, stats). category_metric rid key stats) tab"
    using fold_category_metrics [of "category_metric rid" tab s] assms(2) by (simp_all add: s1_def)
  have 2: "db s2 = db s1"
    "new_metrics s2 = new_metrics s1
        @ List.map_filter (\<lambda>m. overall_metric rid m (query_results rid s)) models"
    using fold_overall_metrics [of "\<lambda>model. overall_metric rid model (query_results rid s)" models s1]
    by (simp_all add: s2_def)
  have len: "length (metrics_rows (db (calculate_rankings rid s2))) = length (metrics_rows (db s))"
    using length_calculate_rankings [of rid s2] 1(1) 2(1) by simp
  have "metrics_rows (db s') = metrics_rows (db (calculate_rankings rid s2)) @ new_metrics s2"
    by (simp add: s' calculate_rankings_fields)
  then have "added_metrics s s' = new_metrics s2"
    using len by (simp add: added_metrics_def)
  then show ?thesis using tab 1(2) 2(2) by simp
qed

lemma group_key_category:
  assumes "group_results s results [] = Inr tab" and "(key, stats) \<in> set tab"
  shows "\<exists>t \<in> set (test_cases (db s)). tc_category t = snd key"
proof -
  from group_results_group [OF assms]
  have "filter (\<lambda>r. result_key s r = Some key) results \<noteq> []" by simp
  then obtain r where "result_key s r = Some key"
    by (metis (mono_tags, lifting) filter_False)
  then obtain tc where tc: "result_test_case s r = Some tc" "key = (er_model_id r, tc_category tc)"
    by (auto simp: result_key_def)
  from tc(1) have "tc \<in> set (test_cases (db s))"
    by (auto simp: result_test_case_def find_Some_iff)
  then show ?thesis using tc(2) by auto
qed

lemma overall_metric_keys:
  "overall_metric rid m results = Some p \<Longrightarrow> pm_model_id p = m_id m \<and> pm_category p = ''overall''"
  by (auto simp: overall_metric_def Let_def split: if_splits)

lemma filter_map_filter_single:
  assumes "distinct (map m_id models)" and "m \<in> set models" and "g m = Some row"
    and "\<And>m' row'. m' \<in> set models \<Longrightarrow> g m' = Some row' \<Longrightarrow> (P row' \<longleftrightarrow> m_id m' = m_id m)"
  shows "filter P (List.map_filter g models) = [row]"
  using assms
proof (induction models)
  case Nil
  then show ?case by simp
next
  case (Cons a models)
  show ?case
  proof (cases "a = m")
    case True
    have "\<And>m' row'. m' \<in> set models \<Longrightarrow> g m' = Some row' \<Longrightarrow> \<not> P row'"
    proof -
      fix m' row' assume h: "m' \<in> set models" "g m' = Some row'"
      have "m_id m \<notin> m_id ` set models" using Cons.prems(1) True by simp
      then have "m_id m' \<noteq> m_id m" using h(1) by (metis imageI)
      then show "\<not> P row'" using Cons.prems(4) [of m' row'] h by simp
    qed
    then have "filter P (List.map_filter g models) = []"
      by (auto simp: List.map_filter_def filter_empty_conv)
    moreover have "P row" using Cons.prems(3) Cons.prems(4) [of m row] Cons.prems(2) by simp
    ultimately show ?thesis
      using True Cons.prems(3) by (simp add: List.map_filter_simps)
  next
    case False
    then have m: "m \<in> set models" using Cons.prems(2) by simp
    have ih: "filter P (List.map_filter g models) = [row]"
      using Cons.IH [OF _ m Cons.prems(3)] Cons.prems(1,4) by simp
    have "m_id a \<notin> m_id ` set models" using Cons.prems(1) by simp
    then have "m_id a \<noteq> m_id m" using m by (metis imageI)
    then have "\<And>row'. g a = Some row' \<Longrightarrow> \<not> P row'"
      using Cons.prems(4) [of a] by simp
    then show ?thesis
      using ih by (cases "g a") (simp_all add: List.map_filter_simps)
  qed
qed


text \<open>
  The roll-up over the results the aggregation has loaded. For every model that has at
  least one loaded result the aggregation appends exactly one row labelled \<^verbatim>\<open>"overall"\<close>
  (no test case being of a category of that name). Its statistics are taken over the
  successful results of the model in all categories at once: the averages are the sums
  of their scores and of their response times divided by their number, not a combination
  of the averages of the categories.
\<close>

lemma overall_row_of_loaded_results:
  fixes s rid m
  defines "model_results \<equiv> filter (\<lambda>r. er_model_id r = m_id m) (query_results rid s)"
  defines "ok \<equiv> filter (\<lambda>r. falsy (er_error_message r)) model_results"
  assumes "generate_performance_metrics rid models s = Inr s'"
    and "new_metrics s = []"
    and "distinct (map m_id models)"
    and "m \<in> set models"
    and "\<forall>t \<in> set (test_cases (db s)). tc_category t \<noteq> ''overall''"
    and "model_results \<noteq> []"
  shows "\<exists>p. filter (\<lambda>p. pm_model_id p = m_id m \<and> pm_category p = ''overall'') (added_metrics s s') = [p]
       \<and> pm_run_id p = rid
       \<and> pm_avg_accuracy p
           = (if ok = [] then 0 else sum_list (map er_accuracy_score ok) / real (length ok))
       \<and> pm_avg_response_time p
           = (if ok = [] then 0 else sum_list (map er_response_time_ms ok) / real (length ok))
       \<and> pm_total_cost p = sum_list (map er_cost_usd ok)
       \<and> pm_total_tokens p = sum_list (map er_tokens_used ok)
       \<and> pm_success_rate p = real (length ok) / real (length model_results)"
proof -
  let ?P = "\<lambda>p. pm_model_id p = m_id m \<and> pm_category p = ''overall''"
  let ?g = "\<lambda>m. overall_metric rid m (query_results rid s)"
  from generate_performance_metrics_new_rows [OF assms(3,4)] obtain tab where
    tab: "group_results s (query_results rid s) [] = Inr tab" and
    rows: "added_metrics s s' = map (\<lambda>(key, stats). category_metric rid key stats) tab
             @ List.map_filter ?g models"
    by blast
  have "\<not> ?P (category_metric rid key stats)" if "(key, stats) \<in> set tab" for key stats
  proof -
    from group_key_category [OF tab that] assms(7) have "snd key \<noteq> ''overall''" by metis
    then show ?thesis by (simp add: category_metric_def Let_def case_prod_beta)
  qed
  then have cat: "filter ?P (map (\<lambda>(key, stats). category_metric rid key stats) tab) = []"
    by (auto simp: filter_empty_conv)
  define p where "p = the (?g m)"
  have gm: "?g m = Some p"
    using assms(8) by (simp add: p_def overall_metric_def Let_def model_results_def case_prod_beta)
  have fields: "pm_run_id p = rid"
    "pm_avg_accuracy p
       = (if ok = [] then 0 else sum_list (map er_accuracy_score ok) / real (length ok))"
    "pm_avg_response_time p
       = (if ok = [] then 0 else sum_list (map er_response_time_ms ok) / real (length ok))"
    "pm_total_cost p = sum_list (map er_cost_usd ok)"
    "pm_total_tokens p = sum_list (map er_tokens_used ok)"
    "pm_success_rate p = real (length ok) / real (length model_results)"
    using assms(8)
    by (simp_all add: p_def overall_metric_def Let_def model_results_def ok_def case_prod_beta)
  have "filter ?P (List.map_filter ?g models) = [p]"
  proof (rule filter_map_filter_single [where g = ?g and P = ?P, OF assms(5,6) gm])
    fix m' row' assume "m' \<in> set models" and "?g m' = Some row'"
    then show "?P row' \<longleftrightarrow> m_id m' = m_id m"
      using overall_metric_keys [of rid m' "query_results rid s" row'] by simp
  qed
  then have "filter ?P (added_metrics s s') = [p]"
    using cat rows by simp
  then show ?thesis using fields by blast
qed

text \<open>
  C6. In the run of the mock model on the test case without evaluator, the model is
  evaluated and its one result is persisted, but the run completes without any metrics
  row: the model has no \<^verbatim>\<open>"overall"\<close> row. The result is the error row of the handler,
  added to the session and not committed; the query of the aggregation, on a session
  without autoflush, loads no result, and the roll-up skips the model. The aggregation
  run again on the stored rows appends the \<^verbatim>\<open>"overall"\<close> row of the model, over its one
  result.
\<close>

theorem evaluated_model_without_overall_row:
  "fst lone_run
     = Inr \<lparr>rs_evaluation_id = 1, rs_status = ''completed'', rs_total_results = 1,
            rs_models_evaluated = 1, rs_test_cases_run = 1\<rparr>
   \<and> map er_model_id (evaluation_results (snd lone_run)) = [1]
   \<and> metrics_rows (snd lone_run) = []
   \<and> map pm_model_id (reaggregate 1 [m_mock] (snd lone_run)) = [1, 1]
   \<and> map pm_category (reaggregate 1 [m_mock] (snd lone_run)) = [''translation'', ''overall'']
   \<and> map pm_success_rate (reaggregate 1 [m_mock] (snd lone_run)) = [0, 0]"
  by code_simp

section \<open>Ranking\<close>

text \<open>The rows an aggregation appends carry no rank: \<^verbatim>\<open>_calculate_rankings\<close> works on
  the rows already in the table, and the appended ones are written by the commit that
  follows it.\<close>

lemma added_metrics_unranked:
  assumes "generate_performance_metrics rid models s = Inr s'" and "new_metrics s = []"
    and "p \<in> set (added_metrics s s')"
  shows "pm_accuracy_rank p = None \<and> pm_speed_rank p = None \<and> pm_cost_rank p = None
       \<and> pm_overall_rank p = None"
proof -
  from generate_performance_metrics_new_rows [OF assms(1,2)] obtain tab where
    rows: "added_metrics s s' = map (\<lambda>(key, stats). category_metric rid key stats) tab
             @ List.map_filter (\<lambda>m. overall_metric rid m (query_results rid s)) models"
    by blast
  from assms(3) rows consider
      (category) key stats where "p = category_metric rid key stats"
    | (overall) m where "overall_metric rid m (query_results rid s) = Some p"
    by (auto simp: List.map_filter_def)
  then show ?thesis
  proof cases
    case category
    then show ?thesis by (simp add: category_metric_def Let_def case_prod_beta)
  next
    case overall
    then show ?thesis
      by (auto simp: overall_metric_def Let_def case_prod_beta split: if_splits)
  qed
qed

text \<open>
  C3. In the run of both models on both test cases, the five metrics rows form three
  groups; none of their rank fields holds a number. The query of \<^verbatim>\<open>_calculate_rankings\<close>
  runs on a session without autoflush before the rows of the run are committed, loads
  none of them, and the ranking loop has nothing to assign.
\<close>

theorem rank_fields_never_assigned:
  "map pm_category (metrics_rows (snd demo_run))
     = [''reasoning'', ''translation'', ''reasoning'', ''overall'', ''overall'']
   \<and> map pm_accuracy_rank (metrics_rows (snd demo_run)) = [None, None, None, None, None]
   \<and> map pm_speed_rank (metrics_rows (snd demo_run)) = [None, None, None, None, None]
   \<and> map pm_cost_rank (metrics_rows (snd demo_run)) = [None, None, None, None, None]"
  by code_simp

text \<open>
  C4. In the same run no row has an \<^verbatim>\<open>overall_rank\<close>. The ranking applied to the rows once
  they are committed gives each row its position in its group by descending points.
\<close>

theorem overall_rank_not_persisted:
  "map pm_model_id (metrics_rows (snd demo_run)) = [1, 1, 2, 1, 2]
   \<and> map pm_overall_rank (metrics_rows (snd demo_run)) = [None, None, None, None, None]
   \<and> map pm_overall_rank
        (metrics_rows (db (calculate_rankings 1 (session_local (snd demo_run)))))
       = [Some 1, Some 1, Some 2, Some 1, Some 2]"
  by code_simp

section \<open>The provider factory\<close>

lemma register_provider_keeps_mock:
  "registry ''mock'' \<noteq> None \<Longrightarrow> register_provider name cls registry ''mock'' \<noteq> None"
  by (simp add: register_provider_def)

text \<open>
  C9. When the configuration has no key \<^verbatim>\<open>"provider"\<close>, the factory takes the type
  \<^verbatim>\<open>"mock"\<close> and builds the class registered under it, without failing. It raises
  exactly when the configuration names a provider type that is not a key of the
  registry. The registry always has the key \<^verbatim>\<open>"mock"\<close>: it starts with it, and
  \<^verbatim>\<open>register_provider\<close> only adds or replaces keys.
\<close>

theorem create_provider_default_mock:
  assumes "registry ''mock'' = Some cls"
  shows "(cfg_provider model_config = None \<longrightarrow>
            create_provider registry model_config = Inr (provider_init cls model_config))
       \<and> ((\<exists>e. create_provider registry model_config = Inl e) \<longleftrightarrow>
            (\<exists>p. cfg_provider model_config = Some p \<and> registry p = None))"
  using assms
  by (cases "cfg_provider model_config")
     (auto simp: create_provider_def cfg_get_def Let_def split: option.splits)

theorem create_provider_default_mock_witness:
  "providers ''mock'' = Some MockProvider
   \<and> cfg_provider cfg_no_provider = None
   \<and> create_provider providers cfg_no_provider = Inr (provider_init MockProvider cfg_no_provider)
   \<and> cfg_provider cfg_local = Some ''local'' \<and> providers ''local'' = None
   \<and> (\<exists>e. create_provider providers cfg_local = Inl e)"
proof -
  have m: "providers ''mock'' = Some MockProvider"
    by (simp add: providers_def)
  have l: "providers ''local'' = None"
    by (simp add: providers_def)
  have n: "cfg_provider cfg_no_provider = None" and p: "cfg_provider cfg_local = Some ''local''"
    by (simp_all add: cfg_no_provider_def cfg_local_def)
  show ?thesis
    using create_provider_default_mock [of providers MockProvider cfg_no_provider]
      create_provider_default_mock [of providers MockProvider cfg_local] m l n p
    by blast
qed

end
